theory Spec2Isabelle
  imports Complex_Main "HOL-Library.Sublist"
begin

section \<open>Strings\<close>

text \<open>
  A JavaScript string is modelled as a \<^typ>\<open>string\<close>, a list of 8-bit characters. The
  keyword tables of the program are ASCII; the pictographs that some message literals start
  with are written as their UTF-8 bytes. \<open>toLowerCase\<close> maps the letters A to Z and leaves
  every other character alone, \<open>includes\<close> is the test for a contiguous substring, and the
  white space of \<open>trim\<close> and of the pattern \<open>\s\<close> is the ASCII white space.
\<close>

definition toLowerChar :: "char \<Rightarrow> char" where
  "toLowerChar c =
     (case map_of (zip ''ABCDEFGHIJKLMNOPQRSTUVWXYZ'' ''abcdefghijklmnopqrstuvwxyz'') c of
        Some l \<Rightarrow> l
      | None \<Rightarrow> c)"

definition toLowerCase :: "string \<Rightarrow> string" where
  "toLowerCase s = map toLowerChar s"

fun str_includes :: "string \<Rightarrow> string \<Rightarrow> bool" where
  "str_includes [] t = (t = [])"
| "str_includes (c # cs) t = (prefix t (c # cs) \<or> str_includes cs t)"

definition isWhiteSpace :: "char \<Rightarrow> bool" where
  "isWhiteSpace c = (c \<in> set [CHR 0x09, CHR 0x0A, CHR 0x0B, CHR 0x0C, CHR 0x0D, CHR 0x20])"

definition trim :: "string \<Rightarrow> string" where
  "trim s = rev (dropWhile isWhiteSpace (rev (dropWhile isWhiteSpace s)))"

text \<open>\<open>xs.join(', ')\<close>\<close>

fun join :: "string \<Rightarrow> string list \<Rightarrow> string" where
  "join sep [] = []"
| "join sep [x] = x"
| "join sep (x # y # ys) = x @ sep @ join sep (y # ys)"

section \<open>Data model (api-client, consultation-engine)\<close>

text \<open>
  The records carry the fields that the modelled functions read. A JavaScript number is a
  \<^typ>\<open>real\<close> where it is a confidence and a \<^typ>\<open>nat\<close> where it counts or measures
  milliseconds. An optional field is an \<^typ>\<open>'a option\<close>.
\<close>

datatype Severity = SevMild | SevModerate | SevSevere

datatype RiskLevel = RiskLow | RiskModerate | RiskHigh

datatype UrgencyLevel = Immediate | Urgent | Moderate | Routine

datatype ContactType = Emergency | Dermatologist | UrgentCare

record DetectedCondition =
  condition :: string
  confidence :: real
  severity :: Severity
  category :: string
  requiresAttention :: bool
  description :: string

record AnalysisResult =
  predictions :: "DetectedCondition list"
  topPrediction :: string
  overallConfidence :: real
  riskLevel :: RiskLevel

record EmergencyContact =
  contactType :: ContactType
  contactName :: string
  phone :: string
  contactDescription :: string

section \<open>Risk assessor (high-risk-handler.ts)\<close>

record HighRiskAssessment =
  isHighRisk :: bool
  urgencyLevel :: UrgencyLevel
  riskFactors :: "string list"
  emergencyContacts :: "EmergencyContact option list"
  specialInstructions :: "string list"

text \<open>The tables set up by the constructor, in insertion order.\<close>

definition highRiskConditions :: "string list" where
  "highRiskConditions =
     [''melanoma'', ''carcinoma'', ''cancer'', ''malignant'', ''tumor'', ''neoplasm'',
      ''sarcoma'', ''lymphoma'', ''metastatic'', ''aggressive'', ''invasive'']"

definition urgentKeywords :: "string list" where
  "urgentKeywords =
     [''bleeding'', ''ulcerated'', ''rapidly growing'', ''changing quickly'', ''asymmetric'',
      ''irregular borders'', ''color variation'', ''diameter increase'', ''evolving'',
      ''suspicious'']"

definition catalogEmergency :: EmergencyContact where
  "catalogEmergency =
     \<lparr>contactType = Emergency, contactName = ''Emergency Services'', phone = ''911'',
      contactDescription = ''For immediate life-threatening emergencies''\<rparr>"

definition catalogDermatologist :: EmergencyContact where
  "catalogDermatologist =
     \<lparr>contactType = Dermatologist, contactName = ''Dermatology Emergency'',
      phone = ''Contact your dermatologist immediately'',
      contactDescription = ''For urgent skin condition evaluation''\<rparr>"

definition catalogUrgentCare :: EmergencyContact where
  "catalogUrgentCare =
     \<lparr>contactType = UrgentCare, contactName = ''Urgent Care Center'',
      phone = ''Find nearest urgent care'',
      contactDescription = ''For same-day medical evaluation''\<rparr>"

definition emergencyContactCatalog :: "EmergencyContact list" where
  "emergencyContactCatalog = [catalogEmergency, catalogDermatologist, catalogUrgentCare]"

definition isHighRiskCondition :: "string \<Rightarrow> bool" where
  "isHighRiskCondition conditionName =
     list_ex (\<lambda>riskCondition. str_includes conditionName riskCondition) highRiskConditions"

definition isPotentiallySerious :: "string \<Rightarrow> bool" where
  "isPotentiallySerious conditionName =
     list_ex (\<lambda>c. str_includes conditionName c)
       [''basal cell'', ''squamous cell'', ''atypical'', ''dysplastic'', ''precancerous'',
        ''keratosis'', ''suspicious lesion'']"

record SymptomRisk =
  hasUrgentSymptoms :: bool
  requiresImmediate :: bool
  urgentFactors :: "string list"

definition abcdeFactors :: "(string \<times> string) list" where
  "abcdeFactors =
     [(''asymmetr'', ''Asymmetry (A criteria)''),
      (''border'', ''Border irregularity (B criteria)''),
      (''color'', ''Color variation (C criteria)''),
      (''diameter'', ''Diameter changes (D criteria)''),
      (''evolving'', ''Evolution/changes (E criteria)''),
      (''changing'', ''Evolution/changes (E criteria)'')]"

definition painKeywords :: "string list" where
  "painKeywords = [''painful'', ''pain'', ''tender'', ''sore'', ''burning'', ''stinging'']"

definition systemicSymptoms :: "string list" where
  "systemicSymptoms = [''fever'', ''fatigue'', ''weight loss'', ''night sweats'', ''swollen lymph'']"

text \<open>
  The two \<open>forEach\<close> loops push one factor for every keyword found, in table order; the
  flags they set are read off the keywords that were found.
\<close>

definition analyzeSymptomRisk :: "string \<Rightarrow> SymptomRisk" where
  "analyzeSymptomRisk symptoms =
     (let symptomsLower = toLowerCase symptoms;
          foundUrgent = filter (\<lambda>keyword. str_includes symptomsLower keyword) urgentKeywords;
          foundAbcde = filter (\<lambda>kf. str_includes symptomsLower (fst kf)) abcdeFactors;
          hasPain = list_ex (\<lambda>keyword. str_includes symptomsLower keyword) painKeywords;
          hasSystemic = list_ex (\<lambda>symptom. str_includes symptomsLower symptom) systemicSymptoms
      in \<lparr>hasUrgentSymptoms = (foundUrgent \<noteq> [] \<or> foundAbcde \<noteq> [] \<or> hasSystemic),
          requiresImmediate =
            (list_ex (\<lambda>keyword. keyword \<in> set [''bleeding'', ''rapidly growing'', ''changing quickly''])
               foundUrgent \<or> hasSystemic),
          urgentFactors =
            map (\<lambda>keyword. ''Urgent symptom reported: '' @ keyword) foundUrgent
            @ map (\<lambda>kf. ''Melanoma warning sign: '' @ snd kf) foundAbcde
            @ (if hasPain then [''Pain or discomfort reported''] else [])
            @ (if hasSystemic
               then [''Systemic symptoms reported - requires immediate evaluation'']
               else [])\<rparr>)"

definition pictoSiren :: string where
  "pictoSiren = [CHR 0xF0, CHR 0x9F, CHR 0x9A, CHR 0xA8]"

definition pictoWarning :: string where
  "pictoWarning = [CHR 0xE2, CHR 0x9A, CHR 0xA0, CHR 0xEF, CHR 0xB8, CHR 0x8F]"

definition pictoClipboard :: string where
  "pictoClipboard = [CHR 0xF0, CHR 0x9F, CHR 0x93, CHR 0x8B]"

definition pictoCalendar :: string where
  "pictoCalendar = [CHR 0xF0, CHR 0x9F, CHR 0x93, CHR 0x85]"

definition generateSpecialInstructions :: "bool \<Rightarrow> UrgencyLevel \<Rightarrow> string \<Rightarrow> string list" where
  "generateSpecialInstructions highRisk urgency conditionName =
     (if highRisk \<or> urgency = Immediate then
        [pictoSiren @ '' CRITICAL: This condition requires IMMEDIATE medical attention'',
         ''Contact a dermatologist or emergency services without delay'',
         ''Do not wait for symptoms to worsen - early intervention is crucial'',
         ''Prepare a list of all symptoms and changes you have noticed'',
         ''Take high-quality photos with a ruler for scale if possible'']
        @ (if isHighRiskCondition (toLowerCase conditionName)
           then [''This may be a potentially life-threatening condition'',
                 ''Time is critical - seek care within 24 hours if possible'']
           else [])
      else if urgency = Urgent then
        [pictoWarning @ '' URGENT: Schedule medical evaluation within 1-3 days'',
         ''Monitor closely and seek immediate care if condition worsens'',
         ''Document any changes with photos and symptom tracking'',
         ''Contact healthcare provider to expedite appointment if possible'']
      else if urgency = Moderate then
        [pictoClipboard @ '' MODERATE: Schedule medical evaluation within 1-2 weeks'',
         ''Monitor condition and seek earlier care if symptoms worsen'',
         ''Keep detailed records of changes and symptoms'']
      else
        [pictoCalendar @ '' ROUTINE: Consider medical evaluation if condition persists or worsens'',
         ''Continue monitoring and maintain good skin care practices''])
     @ (if str_includes (toLowerCase conditionName) ''melanoma''
        then [''Protect area from sun exposure while awaiting medical care'',
              ''Avoid trauma to the lesion'',
              ''Prepare family history of skin cancer for medical appointment'']
        else [])"

text \<open>
  \<open>Array.prototype.find\<close> yields \<open>undefined\<close> when no element matches; \<open>undefined\<close> is
  \<^term>\<open>None\<close>, and the list that is returned holds whatever \<open>find\<close> gave.
\<close>

definition getRelevantEmergencyContacts :: "UrgencyLevel \<Rightarrow> EmergencyContact option list" where
  "getRelevantEmergencyContacts urgency =
     (if urgency = Immediate then map Some emergencyContactCatalog
      else if urgency = Urgent then
        [find (\<lambda>c. contactType c = Dermatologist) emergencyContactCatalog,
         find (\<lambda>c. contactType c = UrgentCare) emergencyContactCatalog]
      else if urgency = Moderate then
        [find (\<lambda>c. contactType c = Dermatologist) emergencyContactCatalog]
      else [])"

text \<open>The three mutable locals of \<open>assessHighRisk\<close>.\<close>

record RiskVars =
  curHighRisk :: bool
  curUrgency :: UrgencyLevel
  curFactors :: "string list"

definition checkPrimaryPrediction :: "DetectedCondition list \<Rightarrow> RiskVars \<Rightarrow> RiskVars" where
  "checkPrimaryPrediction preds v =
     (case preds of
        [] \<Rightarrow> v
      | primaryCondition # _ \<Rightarrow>
          (let conditionName = toLowerCase (condition primaryCondition);
               v1 = (if isHighRiskCondition conditionName
                     then v\<lparr>curHighRisk := True, curUrgency := Immediate,
                            curFactors := curFactors v
                              @ [''Potential malignant condition detected: ''
                                   @ condition primaryCondition]
                              @ (if confidence primaryCondition > 0.7
                                 then [''High confidence in malignant condition prediction'']
                                 else [])\<rparr>
                     else v);
               v2 = (if requiresAttention primaryCondition
                     then v1\<lparr>curFactors := curFactors v1
                                @ [''Condition flagged as requiring medical attention''],
                             curUrgency := (if curUrgency v1 = Routine then Moderate
                                            else curUrgency v1)\<rparr>
                     else v1);
               v3 = (if severity primaryCondition = SevSevere
                     then v2\<lparr>curFactors := curFactors v2
                                @ [''Severe condition severity detected''],
                             curUrgency := (if curUrgency v2 = Routine then Urgent
                                            else curUrgency v2)\<rparr>
                     else v2);
               v4 = (if confidence primaryCondition > 0.8 \<and> isPotentiallySerious conditionName
                     then v3\<lparr>curFactors := curFactors v3
                                @ [''High confidence in potentially serious condition''],
                             curUrgency := (if curUrgency v3 = Routine then Moderate
                                            else curUrgency v3)\<rparr>
                     else v3)
           in v4))"

definition checkSymptoms :: "string \<Rightarrow> RiskVars \<Rightarrow> RiskVars" where
  "checkSymptoms symptoms v =
     (if symptoms \<noteq> [] \<and> length (trim symptoms) > 0 then
        (let symptomRisk = analyzeSymptomRisk symptoms
         in if hasUrgentSymptoms symptomRisk then
              (let v1 = v\<lparr>curFactors := curFactors v @ urgentFactors symptomRisk\<rparr>
               in if requiresImmediate symptomRisk \<and> curUrgency v1 \<noteq> Immediate
                  then v1\<lparr>curUrgency := Urgent, curHighRisk := True\<rparr>
                  else v1)
            else v)
      else v)"

definition checkOverallRisk :: "AnalysisResult \<Rightarrow> RiskVars \<Rightarrow> RiskVars" where
  "checkOverallRisk analysisResult v =
     (if riskLevel analysisResult = RiskHigh
      then v\<lparr>curHighRisk := True,
             curUrgency := (if curUrgency v = Routine then Urgent else curUrgency v),
             curFactors := curFactors v @ [''Overall analysis indicates high risk level'']\<rparr>
      else v)"

text \<open>\<open>predictions[0]?.condition || 'unknown'\<close>: the empty name is falsy.\<close>

definition primaryConditionName :: "DetectedCondition list \<Rightarrow> string" where
  "primaryConditionName preds =
     (case preds of
        [] \<Rightarrow> ''unknown''
      | p # _ \<Rightarrow> (if condition p = [] then ''unknown'' else condition p))"

definition assessHighRisk ::
  "DetectedCondition list \<Rightarrow> string \<Rightarrow> AnalysisResult \<Rightarrow> HighRiskAssessment" where
  "assessHighRisk preds symptoms analysisResult =
     (let v0 = \<lparr>curHighRisk = False, curUrgency = Routine, curFactors = []\<rparr>;
          v = checkOverallRisk analysisResult
                (checkSymptoms symptoms (checkPrimaryPrediction preds v0))
      in \<lparr>isHighRisk = curHighRisk v,
          urgencyLevel = curUrgency v,
          riskFactors = curFactors v,
          emergencyContacts = getRelevantEmergencyContacts (curUrgency v),
          specialInstructions =
            generateSpecialInstructions (curHighRisk v) (curUrgency v)
              (primaryConditionName preds)\<rparr>)"

text \<open>The inputs of the scenarios of the specification and of the handler's tests.\<close>

definition melanomaPrediction :: DetectedCondition where
  "melanomaPrediction =
     \<lparr>condition = ''Melanoma'', confidence = 0.8, severity = SevSevere,
      category = ''Oncological'', requiresAttention = True,
      description = ''Potentially malignant skin lesion''\<rparr>"

definition melanomaAnalysis :: AnalysisResult where
  "melanomaAnalysis =
     \<lparr>predictions = [melanomaPrediction], topPrediction = ''Melanoma'',
      overallConfidence = 0.8, riskLevel = RiskHigh\<rparr>"

definition emptyAnalysis :: "RiskLevel \<Rightarrow> AnalysisResult" where
  "emptyAnalysis r =
     \<lparr>predictions = [], topPrediction = [], overallConfidence = 0, riskLevel = r\<rparr>"

section \<open>Safety validator (safety-validator.ts)\<close>

datatype SafetyRiskLevel = SafetyLow | SafetyMedium | SafetyHigh

record UrgencyAssessment =
  level :: UrgencyLevel
  factors :: "string list"
  timeframe :: string
  emergencyIndicators :: "string list"

record SafetyCheck =
  valid :: bool
  issues :: "string list"
  warnings :: "string list"
  safetyRiskLevel :: SafetyRiskLevel
  requiresDisclaimer :: bool
  requiresEmergencyContacts :: bool
  urgencyAssessment :: UrgencyAssessment

definition prohibitedTerms :: "string list" where
  "prohibitedTerms =
     [''i diagnose'', ''you have'', ''definitely'', ''certainly is'', ''confirmed diagnosis'',
      ''you are diagnosed with'', ''this is definitely'', ''without doubt'', ''conclusively'',
      ''positively identified'', ''medical diagnosis'', ''final diagnosis'',
      ''take this medication'', ''prescription'', ''prescribe'', ''dosage'', ''mg'', ''ml'',
      ''stop taking'', ''increase dose'', ''decrease dose'', ''medication schedule'',
      ''drug interaction'', ''pharmaceutical'', ''rx'', ''prescription drug'',
      ''surgery is required'', ''you need surgery'', ''immediate surgery'',
      ''stop all medications'', ''ignore your doctor'', ''don't see a doctor'',
      ''cancel appointment'', ''avoid medical care'', ''self-treat'',
      ''guaranteed cure'', ''will definitely work'', ''never fails'',
      ''always effective'', ''100% certain'', ''no need to worry'',
      ''completely safe'', ''risk-free'', ''impossible to be wrong'']"

definition diagnosticLanguage :: "string list" where
  "diagnosticLanguage =
     [''diagnosis'', ''diagnosed'', ''diagnose'', ''medical condition is'',
      ''you suffer from'', ''afflicted with'', ''disease is'', ''illness is'',
      ''pathology shows'', ''clinical diagnosis'', ''medical determination'']"

definition requiredDisclaimerTerms :: "string list" where
  "requiredDisclaimerTerms =
     [''not a substitute'', ''professional medical advice'', ''consult'', ''healthcare provider'',
      ''medical professional'', ''qualified'', ''emergency'', ''informational purposes'',
      ''not intended'', ''seek medical attention'', ''healthcare consultation'']"

definition emergencyIndicatorTerms :: "string list" where
  "emergencyIndicatorTerms =
     [''bleeding'', ''rapid growth'', ''sudden change'', ''severe pain'',
      ''difficulty breathing'', ''fever'', ''infection signs'', ''pus'',
      ''red streaking'', ''swollen lymph nodes'', ''systemic symptoms'',
      ''neurological symptoms'', ''vision changes'', ''consciousness'']"

definition validatorHighRiskConditions :: "string list" where
  "validatorHighRiskConditions =
     [''melanoma'', ''carcinoma'', ''cancer'', ''malignant'', ''tumor'',
      ''neoplasm'', ''sarcoma'', ''lymphoma'', ''metastatic'', ''aggressive'',
      ''invasive'', ''basal cell carcinoma'', ''squamous cell carcinoma'']"

definition urgencyKeywordsImmediate :: "string list" where
  "urgencyKeywordsImmediate =
     [''immediate'', ''emergency'', ''urgent'', ''critical'', ''asap'', ''now'',
      ''right away'', ''without delay'', ''immediately'', ''emergent'']"

definition urgencyKeywordsUrgent :: "string list" where
  "urgencyKeywordsUrgent =
     [''soon'', ''promptly'', ''within days'', ''this week'', ''quickly'',
      ''expedited'', ''priority'', ''timely'', ''rapid'']"

definition urgencyKeywordsModerate :: "string list" where
  "urgencyKeywordsModerate =
     [''within a week'', ''few days'', ''scheduled'', ''planned'',
      ''routine appointment'', ''regular care'', ''follow-up'']"

definition urgencyKeywordsRoutine :: "string list" where
  "urgencyKeywordsRoutine =
     [''routine'', ''regular'', ''convenience'', ''when possible'',
      ''at your leisure'', ''standard care'', ''maintenance'']"

definition quoted :: "string \<Rightarrow> string" where
  "quoted s = [CHR 0x22] @ s @ [CHR 0x22]"

text \<open>\<open>checkForProhibitedContent\<close> returns \<open>{valid, violations}\<close>, here a pair.\<close>

definition checkForProhibitedContent :: "string \<Rightarrow> bool \<times> string list" where
  "checkForProhibitedContent text =
     (let content = toLowerCase text;
          violations =
            map (\<lambda>term. ''Contains prohibited medical language: '' @ quoted term)
              (filter (\<lambda>term. str_includes content term) prohibitedTerms)
      in (violations = [], violations))"

definition criticalPhrases :: "string list" where
  "criticalPhrases =
     [''not a substitute for professional medical advice'',
      ''consult a healthcare provider'',
      ''informational purposes only'']"

definition ensureDisclaimersPresent :: "string \<Rightarrow> bool" where
  "ensureDisclaimersPresent text =
     (let content = toLowerCase text;
          foundTerms = filter (\<lambda>term. str_includes content term) requiredDisclaimerTerms;
          hasAdequateDisclaimer = (length foundTerms \<ge> 4);
          hasCriticalPhrases = list_ex (\<lambda>phrase. str_includes content phrase) criticalPhrases
      in hasAdequateDisclaimer \<and> hasCriticalPhrases)"

definition checkDiagnosticLanguage :: "string \<Rightarrow> string list" where
  "checkDiagnosticLanguage text =
     (let content = toLowerCase text
      in map (\<lambda>term. ''Contains inappropriate diagnostic language: '' @ quoted term)
           (filter (\<lambda>term. str_includes content term) diagnosticLanguage))"

text \<open>\<open>validateCertaintyLanguage\<close> returns \<open>{valid, issues}\<close>, here a pair.\<close>

definition validateCertaintyLanguage :: "string \<Rightarrow> bool \<times> string list" where
  "validateCertaintyLanguage text =
     (let content = toLowerCase text;
          hasUncertaintyLanguage =
            list_ex (\<lambda>indicator. str_includes content indicator)
              [''might'', ''could'', ''may'', ''possibly'', ''appears'', ''suggests'',
               ''likely'', ''potential'', ''probable'', ''seems'', ''indicates''];
          hasOverCertainty =
            list_ex (\<lambda>indicator. str_includes content indicator)
              [''absolutely'', ''definitely'', ''certainly'', ''without doubt'',
               ''guaranteed'', ''always'', ''never'', ''100%'']
      in (hasUncertaintyLanguage \<and> \<not> hasOverCertainty,
          (if \<not> hasUncertaintyLanguage
           then [''Response lacks appropriate uncertainty language for medical context'']
           else [])
          @ (if hasOverCertainty
             then [''Response contains inappropriate certainty language for medical context'']
             else [])))"

text \<open>
  \<open>assessUrgencyLevel\<close>; the optional \<open>riskFactors\<close> argument is a list, empty when it is
  left out.
\<close>

definition assessUrgencyLevel :: "string \<Rightarrow> string list \<Rightarrow> UrgencyAssessment" where
  "assessUrgencyLevel response extraFactors =
     (let content = toLowerCase response;
          found = (\<lambda>keywords. filter (\<lambda>k. str_includes content k) keywords);
          foundEmergency = found emergencyIndicatorTerms;
          foundHighRisk = found validatorHighRiskConditions;
          factors1 =
            map (\<lambda>indicator. ''Emergency indicator detected: '' @ indicator) foundEmergency
            @ map (\<lambda>c. ''High-risk condition mentioned: '' @ c) foundHighRisk;
          level1 = (if foundHighRisk \<noteq> [] then Urgent else Routine);
          byKeywords =
            (if list_ex (\<lambda>k. str_includes content k) urgencyKeywordsImmediate then
               (Immediate, ''Seek care immediately'',
                factors1 @ [''Immediate indicators: '' @ join '', '' (found urgencyKeywordsImmediate)])
             else if list_ex (\<lambda>k. str_includes content k) urgencyKeywordsUrgent then
               (if level1 = Routine then Urgent else level1, ''Seek care within 1-3 days'',
                factors1 @ [''Urgent indicators: '' @ join '', '' (found urgencyKeywordsUrgent)])
             else if list_ex (\<lambda>k. str_includes content k) urgencyKeywordsModerate then
               (if level1 = Routine then Moderate else level1, ''Schedule care within 1-2 weeks'',
                factors1 @ [''Moderate indicators: '' @ join '', '' (found urgencyKeywordsModerate)])
             else if list_ex (\<lambda>k. str_includes content k) urgencyKeywordsRoutine then
               (level1, ''No specific timeframe indicated'',
                (if level1 = Routine \<and> factors1 = []
                 then factors1
                   @ [''Routine indicators: '' @ join '', '' (found urgencyKeywordsRoutine)]
                 else factors1))
             else (level1, ''No specific timeframe indicated'', factors1))
      in \<lparr>level = (if foundEmergency \<noteq> [] then Immediate else fst byKeywords),
          factors = snd (snd byKeywords) @ extraFactors,
          timeframe = (if foundEmergency \<noteq> [] then ''Seek emergency care immediately''
                       else fst (snd byKeywords)),
          emergencyIndicators = foundEmergency\<rparr>)"

definition determineOverallRiskLevel :: "string \<Rightarrow> UrgencyAssessment \<Rightarrow> SafetyRiskLevel" where
  "determineOverallRiskLevel response assessment =
     (let content = toLowerCase response
      in if level assessment = Immediate \<or> length (emergencyIndicators assessment) > 0
         then SafetyHigh
         else if list_ex (\<lambda>c. str_includes content c) validatorHighRiskConditions
         then SafetyHigh
         else if level assessment = Urgent \<or> length (factors assessment) > 2
         then SafetyMedium
         else if \<not> fst (checkForProhibitedContent response)
         then SafetyMedium
         else if \<not> ensureDisclaimersPresent response
         then SafetyMedium
         else SafetyLow)"

definition shouldIncludeEmergencyContacts ::
  "string \<Rightarrow> UrgencyAssessment \<Rightarrow> SafetyRiskLevel \<Rightarrow> bool" where
  "shouldIncludeEmergencyContacts response assessment risk =
     (if risk = SafetyHigh \<or> level assessment = Immediate then True
      else if level assessment = Urgent then True
      else if length (emergencyIndicators assessment) > 0 then True
      else if risk = SafetyMedium \<and> length (factors assessment) > 1 then True
      else False)"

definition disclaimerIssue :: string where
  "disclaimerIssue = ''Required medical disclaimers are missing or insufficient''"

definition validateResponse :: "string \<Rightarrow> SafetyCheck" where
  "validateResponse response =
     (let prohibitedCheck = checkForProhibitedContent response;
          disclaimerCheck = ensureDisclaimersPresent response;
          diagnosticCheck = checkDiagnosticLanguage response;
          issuesFound =
            (if \<not> fst prohibitedCheck then snd prohibitedCheck else [])
            @ (if \<not> disclaimerCheck then [disclaimerIssue] else [])
            @ (if length diagnosticCheck > 0 then diagnosticCheck else []);
          assessment = assessUrgencyLevel response [];
          certaintyCheck = validateCertaintyLanguage response;
          risk = determineOverallRiskLevel response assessment
      in \<lparr>valid = (length issuesFound = 0),
          issues = issuesFound,
          warnings = (if \<not> fst certaintyCheck then snd certaintyCheck else []),
          safetyRiskLevel = risk,
          requiresDisclaimer = (\<not> disclaimerCheck \<or> risk \<noteq> SafetyLow),
          requiresEmergencyContacts = shouldIncludeEmergencyContacts response assessment risk,
          urgencyAssessment = assessment\<rparr>)"

text \<open>A disclaimer in the wording of the processor's own disclaimer text.\<close>

definition sampleDisclaimer :: string where
  "sampleDisclaimer =
     ''This AI-powered analysis is for informational purposes only and is NOT a substitute for professional medical advice, diagnosis, or treatment. Always consult a qualified healthcare provider for any health concerns or before making medical decisions.''"

section \<open>Response processor: sanitization (response-processor.ts)\<close>

text \<open>The processor keeps a list of prohibited terms of its own, shorter than the validator's.\<close>

definition processorProhibitedTerms :: "string list" where
  "processorProhibitedTerms =
     [''i diagnose'', ''you have'', ''definitely'', ''certainly is'', ''confirmed diagnosis'',
      ''you are diagnosed with'', ''this is definitely'', ''without doubt'',
      ''take this medication'', ''prescription'', ''prescribe'', ''dosage'',
      ''stop taking'', ''increase dose'', ''decrease dose'', ''medication schedule'',
      ''surgery is required'', ''you need surgery'', ''immediate surgery'',
      ''stop all medications'', ''ignore your doctor'', ''don't see a doctor'',
      ''guaranteed cure'', ''will definitely work'', ''never fails'',
      ''always effective'', ''100% certain'', ''no need to worry'']"

text \<open>
  \<open>content.replace(/<[^>]*>/g, '')\<close>: scanning from the left, a \<open><\<close> that is followed
  somewhere by a \<open>>\<close> is removed together with everything up to the first such \<open>>\<close>.
\<close>

function stripTags :: "string \<Rightarrow> string" where
  "stripTags [] = []"
| "stripTags (c # cs) =
     (if c = CHR ''<'' \<and> CHR ''>'' \<in> set cs
      then stripTags (tl (dropWhile (\<lambda>x. x \<noteq> CHR ''>'') cs))
      else c # stripTags cs)"
  by pat_completeness auto
termination
proof (relation "measure length")
  fix c :: char and cs :: string
  have "length (dropWhile (\<lambda>x. x \<noteq> CHR ''>'') cs) \<le> length cs"
    by (rule length_dropWhile_le)
  then show "(tl (dropWhile (\<lambda>x. x \<noteq> CHR ''>'') cs), c # cs) \<in> measure length"
    by simp
qed simp_all

text \<open>\<open>replace(/\s+/g, ' ')\<close>: every maximal run of white space becomes one space.\<close>

function collapseWhitespace :: "string \<Rightarrow> string" where
  "collapseWhitespace [] = []"
| "collapseWhitespace (c # cs) =
     (if isWhiteSpace c
      then CHR '' '' # collapseWhitespace (dropWhile isWhiteSpace cs)
      else c # collapseWhitespace cs)"
  by pat_completeness auto
termination
  by (relation "measure length")
     (auto simp: less_Suc_eq_le intro: length_dropWhile_le)

text \<open>The callback that picks the replacement of a match.\<close>

definition replacementFor :: "string \<Rightarrow> string" where
  "replacementFor matched =
     (if str_includes (toLowerCase matched) ''diagnose'' then ''suggest the possibility of''
      else if str_includes (toLowerCase matched) ''definitely'' then ''likely''
      else if str_includes (toLowerCase matched) ''prescription''
      then ''professional medical evaluation for treatment options''
      else ''professional medical consultation recommended'')"

text \<open>
  \<open>new RegExp(term, 'gi')\<close> for a term without pattern operators (none of the terms above
  has one) matches the term letter by letter in any case.
\<close>

fun matchesAt :: "string \<Rightarrow> string \<Rightarrow> bool" where
  "matchesAt [] s = True"
| "matchesAt (p # ps) [] = False"
| "matchesAt (p # ps) (c # cs) =
     (if toLowerChar p = toLowerChar c then matchesAt ps cs else False)"

text \<open>
  \<open>sanitized.replace(regex, callback)\<close>: the matches are found from the left and do not
  overlap; text that is not matched is kept as it is. The terms are never empty.
\<close>

function replaceAll :: "string \<Rightarrow> string \<Rightarrow> string" where
  "replaceAll term [] = []"
| "replaceAll term (c # cs) =
     (if term \<noteq> [] \<and> matchesAt term (c # cs)
      then replacementFor (take (length term) (c # cs))
           @ replaceAll term (drop (length term) (c # cs))
      else c # replaceAll term cs)"
  by pat_completeness auto
termination
  by (relation "measure (\<lambda>(term, s). length s)") (auto simp: neq_Nil_conv)

definition sanitizeContent :: "string \<Rightarrow> string" where
  "sanitizeContent content =
     (if content = [] then []
      else foldl (\<lambda>sanitized term. replaceAll term sanitized)
             (trim (collapseWhitespace (stripTags content)))
             processorProhibitedTerms)"

definition unsafeResponse :: string where
  "unsafeResponse = ''I diagnose you with eczema. Take this prescription medication.''"

section \<open>Offline consultation engine (offline-consultation.ts)\<close>

text \<open>
  What a \<open>throw\<close> carries: an \<open>Error\<close> with its message, or the \<open>TypeError\<close> that reading a
  property of \<open>undefined\<close> raises. A function that may throw returns \<open>Exn + 'a\<close>.
\<close>

datatype Exn = Error string | TypeError

datatype ConsultationUrgency = CareImmediate | CareWithinWeek | CareRoutine | CareMonitor

record Consultation =
  conditionAssessment :: string
  symptomCorrelation :: string
  recommendations :: "string list"
  consultationUrgency :: ConsultationUrgency
  educationalInfo :: string
  medicalDisclaimer :: string

record ConsultationMetadata =
  modelUsed :: string
  processingTime :: nat
  confidenceScore :: real
  fallbackUsed :: bool
  safetyValidated :: bool

record ConsultationResponse =
  consultation :: Consultation
  metadata :: ConsultationMetadata
  responseContacts :: "EmergencyContact list option"

record OfflineConsultationConfig =
  includeDetailedRecommendations :: bool
  includeEducationalContent :: bool
  includeEmergencyContacts :: bool
  maxRecommendations :: nat

text \<open>
  The four methods that compose the prose of a consultation (\<open>generateOfflineAssessment\<close>,
  \<open>generateOfflineSymptomCorrelation\<close>, \<open>generateOfflineRecommendations\<close> and
  \<open>generateOfflineEducationalInfo\<close>, with \<open>processSymptoms\<close> which only feeds them) are
  parameters of the model: functions of the method's arguments that return the text or
  throw. What is proved below holds for every choice of them.
\<close>

record ProseBuilders =
  generateOfflineAssessment :: "AnalysisResult \<Rightarrow> string \<Rightarrow> Exn + string"
  generateOfflineSymptomCorrelation :: "string \<Rightarrow> AnalysisResult \<Rightarrow> Exn + string"
  generateOfflineRecommendations ::
    "AnalysisResult \<Rightarrow> string \<Rightarrow> RiskLevel \<Rightarrow> Exn + string list"
  generateOfflineEducationalInfo :: "DetectedCondition \<Rightarrow> AnalysisResult \<Rightarrow> Exn + string"

definition assessOfflineRiskLevel :: "AnalysisResult \<Rightarrow> Exn + RiskLevel" where
  "assessOfflineRiskLevel analysisResult =
     (case predictions analysisResult of
        [] \<Rightarrow> Inl TypeError
      | topCondition # _ \<Rightarrow>
          (let conditionLower = toLowerCase (condition topCondition)
           in if str_includes conditionLower ''melanoma''
                 \<or> str_includes conditionLower ''carcinoma''
                 \<or> str_includes conditionLower ''cancer''
              then Inr RiskHigh
              else
                (let risk0 = riskLevel analysisResult;
                     risk1 = (if requiresAttention topCondition
                                 \<and> overallConfidence analysisResult > 0.7
                              then (if risk0 = RiskLow then RiskModerate else risk0)
                              else risk0);
                     risk2 = (if severity topCondition = SevSevere
                              then (if risk1 = RiskLow then RiskModerate else risk1)
                              else risk1)
                 in Inr risk2)))"

definition determineOfflineUrgencyLevel ::
  "AnalysisResult \<Rightarrow> RiskLevel \<Rightarrow> Exn + ConsultationUrgency" where
  "determineOfflineUrgencyLevel analysisResult risk =
     (case predictions analysisResult of
        [] \<Rightarrow> Inl TypeError
      | topCondition # _ \<Rightarrow>
          (let conditionLower = toLowerCase (condition topCondition)
           in if risk = RiskHigh
                 \<or> str_includes conditionLower ''melanoma''
                 \<or> str_includes conditionLower ''carcinoma''
              then Inr CareImmediate
              else if requiresAttention topCondition \<or> risk = RiskModerate
              then Inr CareWithinWeek
              else if risk = RiskLow \<and> \<not> requiresAttention topCondition
              then Inr CareMonitor
              else Inr CareRoutine))"

definition getOfflineEmergencyContacts :: "RiskLevel \<Rightarrow> EmergencyContact list" where
  "getOfflineEmergencyContacts risk =
     (if risk = RiskHigh
      then [\<lparr>contactType = Emergency, contactName = ''Emergency Services'', phone = ''911'',
              contactDescription = ''For immediate medical emergencies''\<rparr>]
      else [])
     @ [\<lparr>contactType = Dermatologist, contactName = ''Dermatologist'',
          phone = ''Contact your healthcare provider'',
          contactDescription = ''Specialized skin condition care and diagnosis''\<rparr>]
     @ (if risk \<noteq> RiskLow
        then [\<lparr>contactType = UrgentCare, contactName = ''Urgent Care Center'',
                phone = ''Find local urgent care'',
                contactDescription = ''For non-emergency but urgent medical needs''\<rparr>]
        else [])"

definition getOfflineMedicalDisclaimer :: string where
  "getOfflineMedicalDisclaimer =
     pictoWarning
     @ '' **COMPREHENSIVE MEDICAL DISCLAIMER**: This offline AI-powered analysis is for informational and educational purposes only and is NOT a substitute for professional medical advice, diagnosis, or treatment. The analysis is based on visual pattern recognition and should never be used for self-diagnosis or treatment decisions. This system operates independently without external AI consultation and provides enhanced analysis based on established medical knowledge patterns. Always consult a qualified healthcare provider, dermatologist, or medical professional for any health concerns, skin changes, or before making any medical decisions. If you have a medical emergency or urgent symptoms, call emergency services immediately. For skin conditions showing rapid changes, unusual symptoms, or causing significant concern, seek prompt medical attention. This analysis should be shared with your healthcare provider as supplementary information only.''"

text \<open>
  \<open>generateMinimalConsultation\<close> reads \<open>predictions[0]\<close>, which is \<open>undefined\<close> for an
  empty list, and then its \<open>condition\<close>.
\<close>

definition generateMinimalConsultation ::
  "AnalysisResult \<Rightarrow> string \<Rightarrow> Exn + ConsultationResponse" where
  "generateMinimalConsultation analysisResult sessionId =
     (case predictions analysisResult of
        [] \<Rightarrow> Inl TypeError
      | topPred # _ \<Rightarrow>
          Inr \<lparr>consultation =
                 \<lparr>conditionAssessment =
                    ''Analysis detected: '' @ condition topPred
                    @ ''. Professional medical evaluation is recommended for proper diagnosis and treatment.'',
                  symptomCorrelation = ''Symptom analysis unavailable due to system limitations.'',
                  recommendations =
                    [''Consult a healthcare provider or dermatologist'',
                     ''Monitor the condition for any changes'',
                     ''Take photos to track progression'',
                     ''Seek immediate care if condition worsens rapidly''],
                  consultationUrgency =
                    (if requiresAttention topPred then CareWithinWeek else CareRoutine),
                  educationalInfo =
                    (if description topPred = []
                     then ''Professional medical evaluation recommended.''
                     else description topPred),
                  medicalDisclaimer = getOfflineMedicalDisclaimer\<rparr>,
               metadata =
                 \<lparr>modelUsed = ''Minimal Offline Consultation'',
                  processingTime = 0,
                  confidenceScore = overallConfidence analysisResult,
                  fallbackUsed = True,
                  safetyValidated = True\<rparr>,
               responseContacts = None\<rparr>)"

text \<open>
  The \<open>try\<close> block of \<open>generateOfflineConsultation\<close>, its statements in the order of the
  source; \<open>elapsed\<close> is the time \<open>Date.now() - startTime\<close> read off the clock. The
  analysis is the typed argument, an object with a \<open>predictions\<close> array, so that of the
  guard's three tests the one for the empty array remains.
\<close>

definition offlineConsultationBody ::
  "ProseBuilders \<Rightarrow> OfflineConsultationConfig \<Rightarrow> AnalysisResult \<Rightarrow> string \<Rightarrow> nat
     \<Rightarrow> Exn + ConsultationResponse" where
  "offlineConsultationBody pb config analysisResult symptoms elapsed =
     (case predictions analysisResult of
        [] \<Rightarrow> Inl (Error ''Invalid analysis result provided'')
      | topPred # _ \<Rightarrow>
          (case assessOfflineRiskLevel analysisResult of
             Inl e \<Rightarrow> Inl e
           | Inr risk \<Rightarrow>
          (case generateOfflineAssessment pb analysisResult symptoms of
             Inl e \<Rightarrow> Inl e
           | Inr assessment \<Rightarrow>
          (case generateOfflineSymptomCorrelation pb symptoms analysisResult of
             Inl e \<Rightarrow> Inl e
           | Inr correlation \<Rightarrow>
          (case generateOfflineRecommendations pb analysisResult symptoms risk of
             Inl e \<Rightarrow> Inl e
           | Inr recs \<Rightarrow>
          (case determineOfflineUrgencyLevel analysisResult risk of
             Inl e \<Rightarrow> Inl e
           | Inr urgency \<Rightarrow>
          (case generateOfflineEducationalInfo pb topPred analysisResult of
             Inl e \<Rightarrow> Inl e
           | Inr education \<Rightarrow>
               Inr \<lparr>consultation =
                      \<lparr>conditionAssessment = assessment,
                       symptomCorrelation = correlation,
                       recommendations = recs,
                       consultationUrgency = urgency,
                       educationalInfo = education,
                       medicalDisclaimer = getOfflineMedicalDisclaimer\<rparr>,
                    metadata =
                      \<lparr>modelUsed = ''Offline Consultation Engine v2.0'',
                       processingTime = elapsed,
                       confidenceScore = overallConfidence analysisResult,
                       fallbackUsed = True,
                       safetyValidated = True\<rparr>,
                    responseContacts =
                      (if includeEmergencyContacts config
                       then Some (getOfflineEmergencyContacts risk)
                       else None)\<rparr>)))))))"

text \<open>The \<open>catch\<close> clause hands every exception of the body to the minimal consultation.\<close>

definition generateOfflineConsultation ::
  "ProseBuilders \<Rightarrow> OfflineConsultationConfig \<Rightarrow> AnalysisResult \<Rightarrow> string \<Rightarrow> string \<Rightarrow> nat
     \<Rightarrow> Exn + ConsultationResponse" where
  "generateOfflineConsultation pb config analysisResult symptoms sessionId elapsed =
     (case offlineConsultationBody pb config analysisResult symptoms elapsed of
        Inr response \<Rightarrow> Inr response
      | Inl error \<Rightarrow> generateMinimalConsultation analysisResult sessionId)"

definition defaultOfflineConfig :: OfflineConsultationConfig where
  "defaultOfflineConfig =
     \<lparr>includeDetailedRecommendations = True, includeEducationalContent = True,
      includeEmergencyContacts = True, maxRecommendations = 8\<rparr>"

text \<open>Two choices of the prose parameters: terse builders, and builders that all throw.\<close>

definition terseBuilders :: ProseBuilders where
  "terseBuilders =
     \<lparr>generateOfflineAssessment = (\<lambda>a s. Inr ''assessment''),
      generateOfflineSymptomCorrelation = (\<lambda>s a. Inr ''correlation''),
      generateOfflineRecommendations = (\<lambda>a s r. Inr [''recommendation'']),
      generateOfflineEducationalInfo = (\<lambda>c a. Inr ''education'')\<rparr>"

definition throwingBuilders :: ProseBuilders where
  "throwingBuilders =
     \<lparr>generateOfflineAssessment = (\<lambda>a s. Inl (Error ''assessment'')),
      generateOfflineSymptomCorrelation = (\<lambda>s a. Inl (Error ''correlation'')),
      generateOfflineRecommendations = (\<lambda>a s r. Inl (Error ''recommendations'')),
      generateOfflineEducationalInfo = (\<lambda>c a. Inl (Error ''education''))\<rparr>"

section \<open>Dispatcher (gemini-client.ts)\<close>

subsection \<open>The request queue\<close>

datatype Priority = Low | Normal | High

record GeminiRequest =
  prompt :: string
  systemInstruction :: "string option"
  requestTimeout :: "nat option"
  priority :: "Priority option"

text \<open>
  A queue item holds the request, the \<open>resolve\<close> and \<open>reject\<close> callbacks of the promise
  handed to the caller (here the number of that promise), the time of the enqueue and the
  priority.
\<close>

record QueueItem =
  request :: GeminiRequest
  promise :: nat
  timestamp :: nat
  itemPriority :: Priority

definition priorityOrder :: "Priority \<Rightarrow> int" where
  "priorityOrder p = (case p of High \<Rightarrow> 3 | Normal \<Rightarrow> 2 | Low \<Rightarrow> 1)"

text \<open>The comparator handed to \<open>sort\<close>.\<close>

definition compareItems :: "QueueItem \<Rightarrow> QueueItem \<Rightarrow> int" where
  "compareItems a b =
     (let priorityDiff = priorityOrder (itemPriority b) - priorityOrder (itemPriority a)
      in if priorityDiff \<noteq> 0 then priorityDiff
         else int (timestamp a) - int (timestamp b))"

text \<open>
  \<open>Array.prototype.sort\<close> is stable, and for a consistent comparator, as this one is, its
  result is the one sorted arrangement that keeps the elements the comparator ranks equal
  in their order; insertion sort computes it.
\<close>

fun insertBy :: "('a \<Rightarrow> 'a \<Rightarrow> int) \<Rightarrow> 'a \<Rightarrow> 'a list \<Rightarrow> 'a list" where
  "insertBy cmp x [] = [x]"
| "insertBy cmp x (y # ys) = (if cmp x y \<le> 0 then x # y # ys else y # insertBy cmp x ys)"

fun sortBy :: "('a \<Rightarrow> 'a \<Rightarrow> int) \<Rightarrow> 'a list \<Rightarrow> 'a list" where
  "sortBy cmp [] = []"
| "sortBy cmp (x # xs) = insertBy cmp x (sortBy cmp xs)"

definition newQueueItem :: "GeminiRequest \<Rightarrow> nat \<Rightarrow> nat \<Rightarrow> QueueItem" where
  "newQueueItem req p now =
     \<lparr>request = req, promise = p, timestamp = now,
      itemPriority = (case priority req of None \<Rightarrow> Normal | Some pr \<Rightarrow> pr)\<rparr>"

text \<open>\<open>sendConsultationRequest\<close>: push the item, then sort the whole queue.\<close>

definition sendConsultationRequest ::
  "GeminiRequest \<Rightarrow> nat \<Rightarrow> nat \<Rightarrow> QueueItem list \<Rightarrow> QueueItem list" where
  "sendConsultationRequest req p now requestQueue =
     sortBy compareItems (requestQueue @ [newQueueItem req p now])"

text \<open>\<open>requestQueue.shift()\<close> in the processing loop: the item taken and the queue left.\<close>

definition shiftQueue :: "QueueItem list \<Rightarrow> QueueItem option \<times> QueueItem list" where
  "shiftQueue requestQueue =
     (case requestQueue of [] \<Rightarrow> (None, []) | queueItem # rest \<Rightarrow> (Some queueItem, rest))"

text \<open>
  The order of service in the words of the specification: higher priority first, and
  within a priority the earlier enqueue first.
\<close>

definition servedNoLater :: "QueueItem \<Rightarrow> QueueItem \<Rightarrow> bool" where
  "servedNoLater a b =
     (priorityOrder (itemPriority a) > priorityOrder (itemPriority b)
      \<or> (itemPriority a = itemPriority b \<and> timestamp a \<le> timestamp b))"

definition plainRequest :: "Priority option \<Rightarrow> GeminiRequest" where
  "plainRequest pr =
     \<lparr>prompt = ''prompt'', systemInstruction = None, requestTimeout = None, priority = pr\<rparr>"

definition twoNormalQueued :: "QueueItem list" where
  "twoNormalQueued =
     sendConsultationRequest (plainRequest None) 2 20
       (sendConsultationRequest (plainRequest (Some Normal)) 1 10 [])"

text \<open>
  A run of the queue. Callers enqueue; the processing loop, each time it finds the queue
  not empty, shifts the head off and serves it to the end before it looks at the queue
  again. \<open>served\<close> collects the items in the order the loop took them.
\<close>

datatype QueueEvent = Enqueue GeminiRequest nat nat | Dequeue

fun runQueue ::
  "QueueEvent list \<Rightarrow> QueueItem list \<Rightarrow> QueueItem list \<Rightarrow> QueueItem list \<times> QueueItem list" where
  "runQueue [] served requestQueue = (served, requestQueue)"
| "runQueue (Enqueue req p now # events) served requestQueue =
     runQueue events served (sendConsultationRequest req p now requestQueue)"
| "runQueue (Dequeue # events) served requestQueue =
     (case shiftQueue requestQueue of
        (None, rest) \<Rightarrow> runQueue events served rest
      | (Some queueItem, rest) \<Rightarrow> runQueue events (served @ [queueItem]) rest)"

text \<open>The items of a run in the order of their arrival, and the clock readings they took.\<close>

fun arrivals :: "QueueEvent list \<Rightarrow> QueueItem list" where
  "arrivals [] = []"
| "arrivals (Enqueue req p now # events) = newQueueItem req p now # arrivals events"
| "arrivals (Dequeue # events) = arrivals events"

fun enqueueTimes :: "QueueEvent list \<Rightarrow> nat list" where
  "enqueueTimes [] = []"
| "enqueueTimes (Enqueue req p now # events) = now # enqueueTimes events"
| "enqueueTimes (Dequeue # events) = enqueueTimes events"

text \<open>
  The scenario of the specification, two normal requests and then a high one, all served;
  and two low requests of which the second one carries the earlier time stamp.
\<close>

definition scenarioEvents :: "QueueEvent list" where
  "scenarioEvents =
     [Enqueue (plainRequest (Some Normal)) 1 10, Enqueue (plainRequest None) 2 20,
      Enqueue (plainRequest (Some High)) 3 30, Dequeue, Dequeue, Dequeue]"

definition clockSetBackEvents :: "QueueEvent list" where
  "clockSetBackEvents =
     [Enqueue (plainRequest (Some Low)) 1 20, Enqueue (plainRequest (Some Low)) 2 10, Dequeue]"

subsection \<open>Errors and their classification\<close>

datatype ErrorCode = NumCode int | StrCode string

text \<open>What the dispatcher reads of a thrown value.\<close>

record ApiError =
  errMessage :: "string option"
  errCode :: "ErrorCode option"
  errStatus :: "ErrorCode option"
  errRetryAfter :: "nat option"





subsection \<open>Waiting times\<close>

definition isDigit :: "char \<Rightarrow> bool" where
  "isDigit c = (c \<in> set ''0123456789'')"

definition digitValue :: "char \<Rightarrow> nat" where
  "digitValue c = length (takeWhile (\<lambda>d. d \<noteq> c) ''0123456789'')"

definition parseInt :: "string \<Rightarrow> nat" where
  "parseInt digits = foldl (\<lambda>n d. 10 * n + digitValue d) 0 digits"

text \<open>
  \<open>message.match(/retry after (\d+)/i)\<close>: the digits captured at the first place where the
  pattern matches.
\<close>

fun matchRetryAfter :: "string \<Rightarrow> string option" where
  "matchRetryAfter [] = None"
| "matchRetryAfter (c # cs) =
     (if matchesAt ''retry after '' (c # cs)
         \<and> takeWhile isDigit (drop (length ''retry after '') (c # cs)) \<noteq> []
      then Some (takeWhile isDigit (drop (length ''retry after '') (c # cs)))
      else matchRetryAfter cs)"

text \<open>\<open>handleRateLimit\<close> sleeps for the time computed here, in milliseconds.\<close>

definition handleRateLimit :: "ApiError \<Rightarrow> nat" where
  "handleRateLimit e =
     (case errRetryAfter e of
        Some n \<Rightarrow>
          (if n \<noteq> 0 then n
           else (case errMessage e of
                   None \<Rightarrow> 60000
                 | Some m \<Rightarrow>
                     (if m \<noteq> [] \<and> str_includes m ''retry after''
                      then (case matchRetryAfter m of
                              None \<Rightarrow> 60000
                            | Some digits \<Rightarrow> parseInt digits * 1000)
                      else 60000)))
      | None \<Rightarrow>
          (case errMessage e of
             None \<Rightarrow> 60000
           | Some m \<Rightarrow>
               (if m \<noteq> [] \<and> str_includes m ''retry after''
                then (case matchRetryAfter m of
                        None \<Rightarrow> 60000
                      | Some digits \<Rightarrow> parseInt digits * 1000)
                else 60000)))"

record GeminiConfig =
  model :: string
  maxRetries :: "nat option"
  baseRetryDelay :: "nat option"
  maxRetryDelay :: "nat option"

text \<open>\<open>value || fallback\<close> for an optional number: absent and zero both give the fallback.\<close>

definition orDefault :: "nat option \<Rightarrow> nat \<Rightarrow> nat" where
  "orDefault v fallback = (case v of None \<Rightarrow> fallback | Some n \<Rightarrow> if n = 0 then fallback else n)"

text \<open>
  \<open>calculateRetryDelay\<close>; \<open>r\<close> is the value that \<open>Math.random()\<close> returns, a number from 0
  up to but not including 1.
\<close>

definition calculateRetryDelay :: "GeminiConfig \<Rightarrow> nat \<Rightarrow> real \<Rightarrow> real" where
  "calculateRetryDelay config retryCount r =
     (let baseDelay = real (orDefault (baseRetryDelay config) 1000);
          maxDelay = real (orDefault (maxRetryDelay config) 10000);
          exponentialDelay =
            (if retryCount = 0 then baseDelay / 2 else baseDelay * 2 ^ (retryCount - 1));
          jitter = r * 0.1 * exponentialDelay
      in min (exponentialDelay + jitter) maxDelay)"

subsection \<open>The retry loop\<close>

text \<open>
  The response of the loop, without the two metadata fields that are read off the clock
  and off the service (\<open>processingTime\<close>, \<open>tokensUsed\<close>).
\<close>

record GeminiResponse =
  success :: bool
  responseContent :: "string option"
  responseError :: "string option"
  responseModel :: string
  retryCount :: nat
  rateLimited :: bool


















section \<open>Properties of the risk assessor\<close>

lemma checkPrimaryPrediction_high_risk:
  assumes "isHighRiskCondition (toLowerCase (condition p))"
  shows "curUrgency (checkPrimaryPrediction (p # ps) v) = Immediate"
    and "curHighRisk (checkPrimaryPrediction (p # ps) v)"
  using assms by (simp_all add: checkPrimaryPrediction_def Let_def)

lemma checkSymptoms_keeps_immediate:
  assumes "curUrgency v = Immediate" and "curHighRisk v"
  shows "curUrgency (checkSymptoms s v) = Immediate" and "curHighRisk (checkSymptoms s v)"
  using assms by (simp_all add: checkSymptoms_def Let_def)

lemma checkOverallRisk_keeps_immediate:
  assumes "curUrgency v = Immediate" and "curHighRisk v"
  shows "curUrgency (checkOverallRisk a v) = Immediate" and "curHighRisk (checkOverallRisk a v)"
  using assms by (simp_all add: checkOverallRisk_def)

lemma assessHighRisk_fields:
  "urgencyLevel (assessHighRisk ps s a)
     = curUrgency (checkOverallRisk a (checkSymptoms s (checkPrimaryPrediction ps
         \<lparr>curHighRisk = False, curUrgency = Routine, curFactors = []\<rparr>)))"
  "isHighRisk (assessHighRisk ps s a)
     = curHighRisk (checkOverallRisk a (checkSymptoms s (checkPrimaryPrediction ps
         \<lparr>curHighRisk = False, curUrgency = Routine, curFactors = []\<rparr>)))"
  "emergencyContacts (assessHighRisk ps s a)
     = getRelevantEmergencyContacts (urgencyLevel (assessHighRisk ps s a))"
  by (simp_all add: assessHighRisk_def Let_def)

lemma contacts_immediate:
  "getRelevantEmergencyContacts Immediate
     = [Some catalogEmergency, Some catalogDermatologist, Some catalogUrgentCare]"
  by (simp add: getRelevantEmergencyContacts_def emergencyContactCatalog_def)

text \<open>
  C1. Whenever the name of the top prediction contains, in any letter case, one of the
  high-risk terms, the assessment is urgency \<open>immediate\<close> with the high-risk flag set,
  whatever the symptoms and the risk level of the analysis are, and the contacts returned
  are not empty and include Emergency Services with the phone 911.
\<close>

theorem high_risk_condition_is_immediate:
  assumes "preds = p # ps"
    and "isHighRiskCondition (toLowerCase (condition p))"
  shows "urgencyLevel (assessHighRisk preds symptoms analysisResult) = Immediate
       \<and> isHighRisk (assessHighRisk preds symptoms analysisResult)
       \<and> emergencyContacts (assessHighRisk preds symptoms analysisResult) \<noteq> []
       \<and> list_ex (\<lambda>c. map_option contactName c = Some ''Emergency Services''
                     \<and> map_option phone c = Some ''911'')
           (emergencyContacts (assessHighRisk preds symptoms analysisResult))"
proof -
  let ?v1 = "checkPrimaryPrediction (p # ps)
               \<lparr>curHighRisk = False, curUrgency = Routine, curFactors = []\<rparr>"
  have v1: "curUrgency ?v1 = Immediate" "curHighRisk ?v1"
    using assms(2) by (rule checkPrimaryPrediction_high_risk)+
  have v2: "curUrgency (checkSymptoms symptoms ?v1) = Immediate"
    "curHighRisk (checkSymptoms symptoms ?v1)"
    using v1 by (rule checkSymptoms_keeps_immediate)+
  have v3: "curUrgency (checkOverallRisk analysisResult (checkSymptoms symptoms ?v1)) = Immediate"
    "curHighRisk (checkOverallRisk analysisResult (checkSymptoms symptoms ?v1))"
    using v2 by (rule checkOverallRisk_keeps_immediate)+
  have u: "urgencyLevel (assessHighRisk preds symptoms analysisResult) = Immediate"
    using v3(1) by (simp add: assessHighRisk_fields(1) assms(1))
  have h: "isHighRisk (assessHighRisk preds symptoms analysisResult)"
    using v3(2) by (simp add: assessHighRisk_fields(2) assms(1))
  have c: "emergencyContacts (assessHighRisk preds symptoms analysisResult)
             = [Some catalogEmergency, Some catalogDermatologist, Some catalogUrgentCare]"
    by (simp add: assessHighRisk_fields(3) u contacts_immediate)
  show ?thesis
    using u h by (simp add: c catalogEmergency_def)
qed

theorem high_risk_condition_is_immediate_witness:
  "isHighRiskCondition (toLowerCase (condition melanomaPrediction))
   \<and> urgencyLevel (assessHighRisk [melanomaPrediction] [] melanomaAnalysis) = Immediate
   \<and> isHighRisk (assessHighRisk [melanomaPrediction] [] melanomaAnalysis)
   \<and> emergencyContacts (assessHighRisk [melanomaPrediction] [] melanomaAnalysis) \<noteq> []
   \<and> list_ex (\<lambda>c. map_option contactName c = Some ''Emergency Services''
                 \<and> map_option phone c = Some ''911'')
       (emergencyContacts (assessHighRisk [melanomaPrediction] [] melanomaAnalysis))"
proof -
  have hr: "isHighRiskCondition (toLowerCase (condition melanomaPrediction))"
    by (simp add: melanomaPrediction_def isHighRiskCondition_def highRiskConditions_def
        toLowerCase_def toLowerChar_def)
  show ?thesis
    using hr high_risk_condition_is_immediate
      [of "[melanomaPrediction]" melanomaPrediction "[]" "[]" melanomaAnalysis]
    by simp
qed

subsection \<open>Contact selection\<close>

lemma contacts_urgent:
  "getRelevantEmergencyContacts Urgent = [Some catalogDermatologist, Some catalogUrgentCare]"
  by (simp add: getRelevantEmergencyContacts_def emergencyContactCatalog_def
      catalogEmergency_def catalogDermatologist_def catalogUrgentCare_def)

lemma contacts_moderate:
  "getRelevantEmergencyContacts Moderate = [Some catalogDermatologist]"
  by (simp add: getRelevantEmergencyContacts_def emergencyContactCatalog_def
      catalogEmergency_def catalogDermatologist_def)

lemma contacts_routine: "getRelevantEmergencyContacts Routine = []"
  by (simp add: getRelevantEmergencyContacts_def)

lemma catalog_types:
  "contactType catalogEmergency = Emergency"
  "contactType catalogDermatologist = Dermatologist"
  "contactType catalogUrgentCare = UrgentCare"
  by (simp_all add: catalogEmergency_def catalogDermatologist_def catalogUrgentCare_def)

text \<open>
  C5. The contacts of an assessment are computed from its final urgency level alone:
  \<open>immediate\<close> gives the three contacts of the catalogue (emergency, dermatologist, urgent
  care), \<open>urgent\<close> exactly the dermatologist and the urgent-care contact, \<open>moderate\<close>
  exactly the dermatologist contact, and \<open>routine\<close> the empty list.
\<close>

theorem emergency_contacts_by_urgency:
  "emergencyContacts (assessHighRisk preds symptoms analysisResult)
     = getRelevantEmergencyContacts (urgencyLevel (assessHighRisk preds symptoms analysisResult))
   \<and> getRelevantEmergencyContacts Immediate
       = [Some catalogEmergency, Some catalogDermatologist, Some catalogUrgentCare]
   \<and> map (map_option contactType) (getRelevantEmergencyContacts Immediate)
       = [Some Emergency, Some Dermatologist, Some UrgentCare]
   \<and> getRelevantEmergencyContacts Urgent = [Some catalogDermatologist, Some catalogUrgentCare]
   \<and> map (map_option contactType) (getRelevantEmergencyContacts Urgent)
       = [Some Dermatologist, Some UrgentCare]
   \<and> getRelevantEmergencyContacts Moderate = [Some catalogDermatologist]
   \<and> map (map_option contactType) (getRelevantEmergencyContacts Moderate) = [Some Dermatologist]
   \<and> getRelevantEmergencyContacts Routine = []"
  by (simp add: assessHighRisk_fields(3) contacts_immediate contacts_urgent contacts_moderate
      contacts_routine catalog_types)

subsection \<open>The immediate tier and the high-risk flag\<close>

lemma checkPrimaryPrediction_inv:
  assumes "curUrgency v = Immediate \<longrightarrow> curHighRisk v"
  shows "curUrgency (checkPrimaryPrediction preds v) = Immediate
         \<longrightarrow> curHighRisk (checkPrimaryPrediction preds v)"
  using assms by (cases preds) (simp_all add: checkPrimaryPrediction_def Let_def)

lemma checkSymptoms_inv:
  assumes "curUrgency v = Immediate \<longrightarrow> curHighRisk v"
  shows "curUrgency (checkSymptoms s v) = Immediate \<longrightarrow> curHighRisk (checkSymptoms s v)"
  using assms by (simp add: checkSymptoms_def Let_def)

lemma checkOverallRisk_inv:
  assumes "curUrgency v = Immediate \<longrightarrow> curHighRisk v"
  shows "curUrgency (checkOverallRisk a v) = Immediate \<longrightarrow> curHighRisk (checkOverallRisk a v)"
  using assms by (simp add: checkOverallRisk_def)

lemma risk_level_escalation_is_urgent:
  "isHighRisk (assessHighRisk [] [] (emptyAnalysis RiskHigh))
   \<and> urgencyLevel (assessHighRisk [] [] (emptyAnalysis RiskHigh)) = Urgent"
  by (simp add: assessHighRisk_fields checkPrimaryPrediction_def checkSymptoms_def
      checkOverallRisk_def emptyAnalysis_def)

text \<open>
  C10. An assessment of urgency \<open>immediate\<close> always carries the high-risk flag. The converse
  fails: an analysis of risk level \<open>high\<close> with no prediction and no symptom is flagged
  high-risk at urgency \<open>urgent\<close>.
\<close>

theorem immediate_implies_high_risk:
  "(urgencyLevel (assessHighRisk preds symptoms analysisResult) = Immediate
      \<longrightarrow> isHighRisk (assessHighRisk preds symptoms analysisResult))
   \<and> isHighRisk (assessHighRisk [] [] (emptyAnalysis RiskHigh))
   \<and> urgencyLevel (assessHighRisk [] [] (emptyAnalysis RiskHigh)) \<noteq> Immediate"
proof -
  let ?v0 = "\<lparr>curHighRisk = False, curUrgency = Routine, curFactors = []\<rparr>"
  have "curUrgency ?v0 = Immediate \<longrightarrow> curHighRisk ?v0" by simp
  then have "curUrgency (checkPrimaryPrediction preds ?v0) = Immediate
             \<longrightarrow> curHighRisk (checkPrimaryPrediction preds ?v0)"
    by (rule checkPrimaryPrediction_inv)
  then have "curUrgency (checkSymptoms symptoms (checkPrimaryPrediction preds ?v0)) = Immediate
             \<longrightarrow> curHighRisk (checkSymptoms symptoms (checkPrimaryPrediction preds ?v0))"
    by (rule checkSymptoms_inv)
  then have "curUrgency (checkOverallRisk analysisResult
                 (checkSymptoms symptoms (checkPrimaryPrediction preds ?v0))) = Immediate
             \<longrightarrow> curHighRisk (checkOverallRisk analysisResult
                 (checkSymptoms symptoms (checkPrimaryPrediction preds ?v0)))"
    by (rule checkOverallRisk_inv)
  then have "urgencyLevel (assessHighRisk preds symptoms analysisResult) = Immediate
             \<longrightarrow> isHighRisk (assessHighRisk preds symptoms analysisResult)"
    by (simp add: assessHighRisk_fields)
  then show ?thesis
    using risk_level_escalation_is_urgent by simp
qed

theorem immediate_implies_high_risk_witness:
  "urgencyLevel (assessHighRisk [melanomaPrediction] [] melanomaAnalysis) = Immediate
   \<and> isHighRisk (assessHighRisk [melanomaPrediction] [] melanomaAnalysis)"
proof -
  have u: "urgencyLevel (assessHighRisk [melanomaPrediction] [] melanomaAnalysis) = Immediate"
    by (simp add: assessHighRisk_fields checkPrimaryPrediction_def checkSymptoms_def
        checkOverallRisk_def melanomaPrediction_def melanomaAnalysis_def
        isHighRiskCondition_def highRiskConditions_def isPotentiallySerious_def
        toLowerCase_def toLowerChar_def Let_def)
  show ?thesis
    using u immediate_implies_high_risk [of "[melanomaPrediction]" "[]" melanomaAnalysis]
    by simp
qed

subsection \<open>Systemic symptoms\<close>

text \<open>
  C2 as stated fails: the symptom text \<open>fever\<close> with no prediction and a low risk level is
  assessed as \<open>urgent\<close>, not \<open>immediate\<close>.
\<close>

theorem systemic_symptoms_not_immediate:
  "list_ex (\<lambda>k. str_includes (toLowerCase ''fever'') k) systemicSymptoms
   \<and> urgencyLevel (assessHighRisk [] ''fever'' (emptyAnalysis RiskLow)) \<noteq> Immediate"
  by (simp add: assessHighRisk_fields checkPrimaryPrediction_def checkSymptoms_def
      checkOverallRisk_def emptyAnalysis_def analyzeSymptomRisk_def systemicSymptoms_def
      urgentKeywords_def abcdeFactors_def toLowerCase_def toLowerChar_def trim_def
      isWhiteSpace_def Let_def)

lemma str_includes_hd:
  assumes "str_includes s t" and "t \<noteq> []"
  shows "hd t \<in> set s"
  using assms
proof (induction s)
  case Nil
  then show ?case by simp
next
  case (Cons c cs)
  then show ?case by (cases t) auto
qed

lemma trim_empty_iff: "trim s = [] \<longleftrightarrow> (\<forall>c \<in> set s. isWhiteSpace c)"
proof
  assume t: "trim s = []"
  show "\<forall>c \<in> set s. isWhiteSpace c"
  proof (rule ccontr)
    assume "\<not> (\<forall>c \<in> set s. isWhiteSpace c)"
    then have n: "dropWhile isWhiteSpace s \<noteq> []" by simp
    then have "\<not> isWhiteSpace (hd (dropWhile isWhiteSpace s))" by (rule hd_dropWhile)
    moreover have "hd (dropWhile isWhiteSpace s) \<in> set (dropWhile isWhiteSpace s)"
      using n by (rule hd_in_set)
    ultimately show False using t by (auto simp: trim_def)
  qed
next
  assume "\<forall>c \<in> set s. isWhiteSpace c"
  then show "trim s = []" by (auto simp: trim_def dest: set_dropWhileD)
qed

lemma toLowerChar_whitespace: "isWhiteSpace c \<Longrightarrow> toLowerChar c = c"
  unfolding isWhiteSpace_def toLowerChar_def by (elim disjE | simp)+

lemma includes_letter_not_blank:
  assumes "str_includes (toLowerCase s) t" and "t \<noteq> []" and "\<not> isWhiteSpace (hd t)"
  shows "s \<noteq> [] \<and> length (trim s) > 0"
proof -
  have "hd t \<in> set (toLowerCase s)" using assms(1,2) by (rule str_includes_hd)
  then obtain c where c: "c \<in> set s" "toLowerChar c = hd t"
    by (auto simp: toLowerCase_def)
  have "\<not> isWhiteSpace c"
  proof
    assume w: "isWhiteSpace c"
    then have "toLowerChar c = c" by (rule toLowerChar_whitespace)
    then show False using c(2) w assms(3) by simp
  qed
  then have "trim s \<noteq> []" using c(1) trim_empty_iff by blast
  then show ?thesis using c(1) by auto
qed

lemma systemic_not_blank:
  assumes "list_ex (\<lambda>k. str_includes (toLowerCase s) k) systemicSymptoms"
  shows "s \<noteq> [] \<and> length (trim s) > 0"
proof -
  from assms obtain k where k: "k \<in> set systemicSymptoms" "str_includes (toLowerCase s) k"
    by (auto simp: list_ex_iff)
  have "k \<noteq> [] \<and> \<not> isWhiteSpace (hd k)"
    using k(1) by (auto simp: systemicSymptoms_def isWhiteSpace_def)
  then show ?thesis using k(2) includes_letter_not_blank by blast
qed

lemma checkSymptoms_systemic:
  assumes "list_ex (\<lambda>k. str_includes (toLowerCase s) k) systemicSymptoms"
  shows "checkSymptoms s v =
           (if curUrgency v = Immediate
            then v\<lparr>curFactors := curFactors v @ urgentFactors (analyzeSymptomRisk s)\<rparr>
            else v\<lparr>curFactors := curFactors v @ urgentFactors (analyzeSymptomRisk s),
                   curUrgency := Urgent, curHighRisk := True\<rparr>)"
proof -
  have nb: "s \<noteq> [] \<and> length (trim s) > 0" using assms by (rule systemic_not_blank)
  have h: "hasUrgentSymptoms (analyzeSymptomRisk s)" "requiresImmediate (analyzeSymptomRisk s)"
    using assms by (simp_all add: analyzeSymptomRisk_def Let_def)
  show ?thesis using nb h by (simp add: checkSymptoms_def Let_def)
qed

lemma checkPrimaryPrediction_immediate_iff:
  assumes "curUrgency v \<noteq> Immediate"
  shows "curUrgency (checkPrimaryPrediction preds v) = Immediate
         \<longleftrightarrow> (\<exists>p ps. preds = p # ps \<and> isHighRiskCondition (toLowerCase (condition p)))"
  using assms by (cases preds) (auto simp: checkPrimaryPrediction_def Let_def)

text \<open>
  C2, as amended. Symptom text that contains a systemic-symptom keyword in any letter case
  sets the high-risk flag and gives urgency \<open>urgent\<close>; the urgency is \<open>immediate\<close> only
  when the name of the top prediction contains a high-risk term.
\<close>

theorem systemic_symptoms_escalate:
  assumes "list_ex (\<lambda>k. str_includes (toLowerCase symptoms) k) systemicSymptoms"
  shows "isHighRisk (assessHighRisk preds symptoms analysisResult)
       \<and> urgencyLevel (assessHighRisk preds symptoms analysisResult)
           = (if \<exists>p ps. preds = p # ps \<and> isHighRiskCondition (toLowerCase (condition p))
              then Immediate else Urgent)"
proof -
  let ?v0 = "\<lparr>curHighRisk = False, curUrgency = Routine, curFactors = []\<rparr>"
  let ?v1 = "checkPrimaryPrediction preds ?v0"
  have i: "curUrgency ?v1 = Immediate
           \<longleftrightarrow> (\<exists>p ps. preds = p # ps \<and> isHighRiskCondition (toLowerCase (condition p)))"
    by (rule checkPrimaryPrediction_immediate_iff) simp
  have inv: "curUrgency ?v1 = Immediate \<longrightarrow> curHighRisk ?v1"
    by (rule checkPrimaryPrediction_inv) simp
  have s: "curHighRisk (checkSymptoms symptoms ?v1)
           \<and> curUrgency (checkSymptoms symptoms ?v1)
               = (if curUrgency ?v1 = Immediate then Immediate else Urgent)"
    using inv by (simp add: checkSymptoms_systemic [OF assms])
  have o: "curHighRisk (checkOverallRisk analysisResult (checkSymptoms symptoms ?v1))
           \<and> curUrgency (checkOverallRisk analysisResult (checkSymptoms symptoms ?v1))
               = (if curUrgency ?v1 = Immediate then Immediate else Urgent)"
    using s by (simp add: checkOverallRisk_def)
  show ?thesis
    using o i by (simp add: assessHighRisk_fields)
qed

theorem systemic_symptoms_escalate_witness:
  "list_ex (\<lambda>k. str_includes (toLowerCase ''Night sweats'') k) systemicSymptoms
   \<and> isHighRisk (assessHighRisk [] ''Night sweats'' (emptyAnalysis RiskLow))
   \<and> urgencyLevel (assessHighRisk [] ''Night sweats'' (emptyAnalysis RiskLow)) = Urgent"
proof -
  have k: "list_ex (\<lambda>k. str_includes (toLowerCase ''Night sweats'') k) systemicSymptoms"
    by (simp add: systemicSymptoms_def toLowerCase_def toLowerChar_def)
  show ?thesis
    using k systemic_symptoms_escalate [of "''Night sweats''" "[]" "emptyAnalysis RiskLow"]
    by simp
qed

section \<open>Properties of the safety validator and of the sanitizer\<close>

text \<open>A code equation on the bits of a character, for evaluating \<^const>\<open>toLowerChar\<close>.\<close>

lemma toLowerChar_bits [code]:
  "toLowerChar (Char b0 b1 b2 b3 b4 b5 b6 b7) =
     (if b6 \<and> \<not> b5 \<and> \<not> b7 \<and> (b0 \<or> b1 \<or> b2 \<or> b3 \<or> b4)
         \<and> \<not> (b4 \<and> b3 \<and> (b2 \<or> (b1 \<and> b0)))
      then Char b0 b1 b2 b3 b4 True b6 b7
      else Char b0 b1 b2 b3 b4 b5 b6 b7)"
  by (cases b0; cases b1; cases b2; cases b3; cases b4; cases b5; cases b6; cases b7;
      simp add: toLowerChar_def)

lemma validateResponse_issues:
  "issues (validateResponse text) =
     snd (checkForProhibitedContent text)
     @ (if ensureDisclaimersPresent text then [] else [disclaimerIssue])
     @ checkDiagnosticLanguage text"
  by (simp add: validateResponse_def Let_def checkForProhibitedContent_def)

lemma validateResponse_valid:
  "valid (validateResponse text) \<longleftrightarrow> issues (validateResponse text) = []"
  by (simp add: validateResponse_def Let_def)

lemma disclaimerIssue_not_prohibited:
  "disclaimerIssue \<notin> set (snd (checkForProhibitedContent text))"
  by (auto simp: checkForProhibitedContent_def Let_def disclaimerIssue_def)

lemma disclaimerIssue_not_diagnostic:
  "disclaimerIssue \<notin> set (checkDiagnosticLanguage text)"
  by (auto simp: checkDiagnosticLanguage_def Let_def disclaimerIssue_def)

lemma distinct_requiredDisclaimerTerms: "distinct requiredDisclaimerTerms"
  by (simp add: requiredDisclaimerTerms_def)

lemma found_terms_card:
  "length (filter (\<lambda>t. str_includes content t) requiredDisclaimerTerms)
     = card {t \<in> set requiredDisclaimerTerms. str_includes content t}"
proof -
  have "{t \<in> set requiredDisclaimerTerms. str_includes content t}
          = {t. str_includes content t} \<inter> set requiredDisclaimerTerms"
    by auto
  then show ?thesis
    using distinct_requiredDisclaimerTerms by (simp add: distinct_length_filter)
qed

text \<open>
  C7. The disclaimer check accepts a text exactly when the lower-cased text contains at
  least four of the terms of the disclaimer vocabulary and at least one of the three critical
  phrases. The validator reports the missing-disclaimer issue exactly when the check fails,
  whatever the prohibited-content check finds, and such a response is not valid.
\<close>

theorem disclaimer_check_iff:
  "(ensureDisclaimersPresent text \<longleftrightarrow>
      4 \<le> card {t \<in> set requiredDisclaimerTerms. str_includes (toLowerCase text) t}
      \<and> (\<exists>p \<in> set criticalPhrases. str_includes (toLowerCase text) p))
   \<and> (disclaimerIssue \<in> set (issues (validateResponse text))
        \<longleftrightarrow> \<not> ensureDisclaimersPresent text)
   \<and> (\<not> ensureDisclaimersPresent text \<longrightarrow> \<not> valid (validateResponse text))"
proof -
  have a: "ensureDisclaimersPresent text \<longleftrightarrow>
      4 \<le> card {t \<in> set requiredDisclaimerTerms. str_includes (toLowerCase text) t}
      \<and> (\<exists>p \<in> set criticalPhrases. str_includes (toLowerCase text) p)"
    by (simp add: ensureDisclaimersPresent_def Let_def found_terms_card list_ex_iff)
  have b: "disclaimerIssue \<in> set (issues (validateResponse text))
        \<longleftrightarrow> \<not> ensureDisclaimersPresent text"
    using disclaimerIssue_not_prohibited [of "text"] disclaimerIssue_not_diagnostic [of "text"]
    by (simp add: validateResponse_issues)
  have c: "\<not> ensureDisclaimersPresent text \<longrightarrow> \<not> valid (validateResponse text)"
    by (simp add: validateResponse_valid validateResponse_issues)
  show ?thesis using a b c by blast
qed

theorem disclaimer_check_iff_witness:
  "ensureDisclaimersPresent sampleDisclaimer
   \<and> 4 \<le> card {t \<in> set requiredDisclaimerTerms.
               str_includes (toLowerCase sampleDisclaimer) t}
   \<and> disclaimerIssue \<notin> set (issues (validateResponse sampleDisclaimer))
   \<and> \<not> ensureDisclaimersPresent ''Looks fine.''
   \<and> disclaimerIssue \<in> set (issues (validateResponse ''Looks fine.''))
   \<and> \<not> valid (validateResponse ''Looks fine.'')"
proof -
  have e: "ensureDisclaimersPresent sampleDisclaimer" by code_simp
  have n: "\<not> ensureDisclaimersPresent ''Looks fine.''" by code_simp
  show ?thesis
    using e n disclaimer_check_iff [of sampleDisclaimer] disclaimer_check_iff [of "''Looks fine.''"]
    by blast
qed

lemma prohibited_violation_reported:
  assumes "term \<in> set prohibitedTerms" and "str_includes (toLowerCase text) term"
  shows "''Contains prohibited medical language: '' @ quoted term
           \<in> set (snd (checkForProhibitedContent text))"
  using assms by (simp add: checkForProhibitedContent_def Let_def)

lemma unsafe_sanitized:
  "sanitizeContent unsafeResponse = ''suggest the possibility of you with eczema. Take this professional medical evaluation for treatment options medication.''"
  by code_simp

lemma unsafe_sanitized_clean:
  "\<not> str_includes ''suggest the possibility of you with eczema. Take this professional medical evaluation for treatment options medication.'' ''I diagnose''"
  "\<not> str_includes ''suggest the possibility of you with eczema. Take this professional medical evaluation for treatment options medication.'' ''prescription''"
  "fst (checkForProhibitedContent ''suggest the possibility of you with eczema. Take this professional medical evaluation for treatment options medication.'')"
  by code_simp+

lemma unsafe_contains: "str_includes (toLowerCase unsafeResponse) ''i diagnose''"
  by code_simp

text \<open>
  C4 as stated fails for the sanitizer. The validator's term \<open>conclusively\<close> is not in the
  sanitizer's list and is left in place; and rewriting \<open>dosage\<close> in \<open>dosageefinitely\<close>
  produces the phrase \<open>definitely\<close>, a term of both lists that the sanitizer has already
  passed.
\<close>

theorem sanitizer_leaves_prohibited_phrase:
  "''conclusively'' \<in> set prohibitedTerms
   \<and> str_includes (toLowerCase ''This is conclusively eczema.'') ''conclusively''
   \<and> str_includes (sanitizeContent ''This is conclusively eczema.'') ''conclusively''
   \<and> ''dosage'' \<in> set prohibitedTerms
   \<and> ''definitely'' \<in> set processorProhibitedTerms
   \<and> str_includes (toLowerCase ''dosageefinitely'') ''dosage''
   \<and> str_includes (sanitizeContent ''dosageefinitely'') ''definitely''"
proof -
  have m: "''conclusively'' \<in> set prohibitedTerms" "''dosage'' \<in> set prohibitedTerms"
    by (simp_all add: prohibitedTerms_def)
  have p: "''definitely'' \<in> set processorProhibitedTerms"
    by (simp add: processorProhibitedTerms_def)
  have a: "str_includes (toLowerCase ''This is conclusively eczema.'') ''conclusively''"
    by code_simp
  have b: "str_includes (sanitizeContent ''This is conclusively eczema.'') ''conclusively''"
    by code_simp
  have c: "str_includes (toLowerCase ''dosageefinitely'') ''dosage''"
    by code_simp
  have d: "str_includes (sanitizeContent ''dosageefinitely'') ''definitely''"
    by code_simp
  show ?thesis using m p a b c d by simp
qed

text \<open>
  C4, as amended. A text whose lower-cased form contains a term of the validator's
  prohibited list is reported invalid, with the issue that names the term. For the response
  \<open>I diagnose you with eczema. Take this prescription medication.\<close> the validator answers
  invalid and names \<open>i diagnose\<close>; the sanitized text contains neither \<open>I diagnose\<close> nor
  \<open>prescription\<close>, and the validator finds no prohibited term in it.
\<close>

theorem prohibited_text_is_rejected:
  "(term \<in> set prohibitedTerms \<and> str_includes (toLowerCase text) term \<longrightarrow>
      \<not> valid (validateResponse text)
      \<and> ''Contains prohibited medical language: '' @ quoted term
          \<in> set (issues (validateResponse text)))
   \<and> \<not> valid (validateResponse unsafeResponse)
   \<and> ''Contains prohibited medical language: '' @ quoted ''i diagnose''
       \<in> set (issues (validateResponse unsafeResponse))
   \<and> \<not> str_includes (sanitizeContent unsafeResponse) ''I diagnose''
   \<and> \<not> str_includes (sanitizeContent unsafeResponse) ''prescription''
   \<and> fst (checkForProhibitedContent (sanitizeContent unsafeResponse))"
proof -
  have g: "\<not> valid (validateResponse t)
      \<and> ''Contains prohibited medical language: '' @ quoted k \<in> set (issues (validateResponse t))"
    if "k \<in> set prohibitedTerms" and "str_includes (toLowerCase t) k" for k t
  proof -
    have "''Contains prohibited medical language: '' @ quoted k
            \<in> set (snd (checkForProhibitedContent t))"
      using that by (rule prohibited_violation_reported)
    then have i: "''Contains prohibited medical language: '' @ quoted k
                    \<in> set (issues (validateResponse t))"
      by (simp add: validateResponse_issues)
    then have "issues (validateResponse t) \<noteq> []" by auto
    then show ?thesis using i by (simp add: validateResponse_valid)
  qed
  have m: "''i diagnose'' \<in> set prohibitedTerms" by (simp add: prohibitedTerms_def)
  show ?thesis
    using g [of "term" "text"] g [OF m unsafe_contains] unsafe_sanitized_clean
    by (simp add: unsafe_sanitized)
qed

theorem prohibited_text_is_rejected_witness:
  "''prescription'' \<in> set prohibitedTerms
   \<and> str_includes (toLowerCase unsafeResponse) ''prescription''
   \<and> \<not> valid (validateResponse unsafeResponse)
   \<and> ''Contains prohibited medical language: '' @ quoted ''prescription''
       \<in> set (issues (validateResponse unsafeResponse))"
proof -
  have m: "''prescription'' \<in> set prohibitedTerms" by (simp add: prohibitedTerms_def)
  have c: "str_includes (toLowerCase unsafeResponse) ''prescription''" by code_simp
  show ?thesis
    using m c prohibited_text_is_rejected [of "''prescription''" unsafeResponse]
    by blast
qed

section \<open>Properties of the offline consultation engine\<close>

lemma minimal_ok:
  assumes "predictions a = p # ps"
  shows "\<exists>r. generateMinimalConsultation a sid = Inr r
           \<and> medicalDisclaimer (consultation r) = getOfflineMedicalDisclaimer
           \<and> fallbackUsed (metadata r) \<and> safetyValidated (metadata r)"
  using assms by (simp add: generateMinimalConsultation_def)

lemma body_ok:
  assumes "offlineConsultationBody pb cfg a s t = Inr r"
  shows "medicalDisclaimer (consultation r) = getOfflineMedicalDisclaimer
           \<and> fallbackUsed (metadata r) \<and> safetyValidated (metadata r)"
  using assms
  by (auto simp: offlineConsultationBody_def split: list.splits sum.splits)

lemma disclaimer_nonempty: "getOfflineMedicalDisclaimer \<noteq> []"
  by (simp add: getOfflineMedicalDisclaimer_def pictoWarning_def)

text \<open>
  C6. For an analysis with at least one prediction the offline engine returns a response,
  whatever the prose builders do, and the response has a medical disclaimer that is not
  empty and metadata with \<open>fallbackUsed\<close> and \<open>safetyValidated\<close> both true. The result is a
  function of the arguments alone: the model has no channel to an external service.
\<close>

theorem offline_consultation_flags:
  assumes "predictions analysisResult \<noteq> []"
  shows "\<exists>r. generateOfflineConsultation pb config analysisResult symptoms sessionId elapsed = Inr r
           \<and> medicalDisclaimer (consultation r) \<noteq> []
           \<and> fallbackUsed (metadata r) \<and> safetyValidated (metadata r)"
proof -
  from assms obtain p ps where ps: "predictions analysisResult = p # ps"
    by (cases "predictions analysisResult") auto
  show ?thesis
  proof (cases "offlineConsultationBody pb config analysisResult symptoms elapsed")
    case (Inl e)
    then show ?thesis
      using minimal_ok [OF ps, of sessionId] disclaimer_nonempty
      by (auto simp: generateOfflineConsultation_def)
  next
    case (Inr r)
    then show ?thesis
      using body_ok [OF Inr] disclaimer_nonempty
      by (auto simp: generateOfflineConsultation_def)
  qed
qed

theorem offline_consultation_flags_witness:
  "predictions melanomaAnalysis \<noteq> []
   \<and> (\<exists>r. generateOfflineConsultation terseBuilders defaultOfflineConfig melanomaAnalysis [] ''session-1'' 5 = Inr r
           \<and> medicalDisclaimer (consultation r) \<noteq> []
           \<and> fallbackUsed (metadata r) \<and> safetyValidated (metadata r))
   \<and> (\<exists>r. generateOfflineConsultation throwingBuilders defaultOfflineConfig melanomaAnalysis [] ''session-1'' 5 = Inr r
           \<and> medicalDisclaimer (consultation r) \<noteq> []
           \<and> fallbackUsed (metadata r) \<and> safetyValidated (metadata r))"
proof -
  have n: "predictions melanomaAnalysis \<noteq> []" by (simp add: melanomaAnalysis_def)
  show ?thesis
    using n offline_consultation_flags [OF n, of terseBuilders defaultOfflineConfig "[]" "''session-1''" 5]
      offline_consultation_flags [OF n, of throwingBuilders defaultOfflineConfig "[]" "''session-1''" 5]
    by simp
qed

text \<open>
  C3 fails on the code: for an analysis whose prediction list is empty the body throws, the
  \<open>catch\<close> clause calls \<open>generateMinimalConsultation\<close>, and that reads the condition of the
  missing first prediction, so the call ends in a \<open>TypeError\<close> instead of the minimal
  consultation.
\<close>

theorem empty_predictions_throw:
  "generateOfflineConsultation pb config (emptyAnalysis risk) symptoms sessionId elapsed
     = Inl TypeError"
  by (simp add: generateOfflineConsultation_def offlineConsultationBody_def
      generateMinimalConsultation_def emptyAnalysis_def)

lemma throwing_is_minimal:
  "generateOfflineConsultation throwingBuilders defaultOfflineConfig melanomaAnalysis [] ''s'' 5
     = generateMinimalConsultation melanomaAnalysis ''s''"
  by (simp add: generateOfflineConsultation_def offlineConsultationBody_def throwingBuilders_def melanomaAnalysis_def assessOfflineRiskLevel_def melanomaPrediction_def Let_def toLowerCase_def toLowerChar_def)

section \<open>Properties of the dispatcher\<close>

subsection \<open>The queue\<close>

lemma compareItems_le_iff: "compareItems a b \<le> 0 \<longleftrightarrow> servedNoLater a b"
  by (cases "itemPriority a"; cases "itemPriority b")
     (simp_all add: compareItems_def servedNoLater_def priorityOrder_def)

lemma servedNoLater_priority:
  "servedNoLater a b \<Longrightarrow> priorityOrder (itemPriority b) \<le> priorityOrder (itemPriority a)"
  by (auto simp: servedNoLater_def)

lemma servedNoLater_trans:
  "servedNoLater a b \<Longrightarrow> servedNoLater b c \<Longrightarrow> servedNoLater a c"
  by (auto simp: servedNoLater_def)

lemma servedNoLater_total: "\<not> servedNoLater a b \<Longrightarrow> servedNoLater b a"
  by (cases "itemPriority a"; cases "itemPriority b")
     (auto simp: servedNoLater_def priorityOrder_def)

lemma set_insertBy: "set (insertBy cmp x xs) = insert x (set xs)"
  by (induction xs) auto

lemma set_sortBy: "set (sortBy cmp xs) = set xs"
  by (induction xs) (auto simp: set_insertBy)

lemma sorted_insertBy:
  assumes "sorted_wrt servedNoLater xs"
  shows "sorted_wrt servedNoLater (insertBy compareItems x xs)"
  using assms
proof (induction xs)
  case Nil
  then show ?case by simp
next
  case (Cons y ys)
  show ?case
  proof (cases "compareItems x y \<le> 0")
    case True
    then have xy: "servedNoLater x y" by (simp add: compareItems_le_iff)
    have "\<forall>z \<in> set ys. servedNoLater x z"
      using Cons.prems xy servedNoLater_trans by auto
    then show ?thesis using True xy Cons.prems by simp
  next
    case False
    then have yx: "servedNoLater y x"
      using servedNoLater_total by (simp add: compareItems_le_iff)
    have "sorted_wrt servedNoLater (insertBy compareItems x ys)"
      using Cons by simp
    then show ?thesis using False yx Cons.prems by (simp add: set_insertBy)
  qed
qed

lemma sorted_sortBy: "sorted_wrt servedNoLater (sortBy compareItems xs)"
  by (induction xs) (simp_all add: sorted_insertBy)

lemma insertBy_front:
  assumes "\<forall>z \<in> set xs. servedNoLater x z"
  shows "insertBy compareItems x xs = x # xs"
  using assms by (cases xs) (simp_all add: compareItems_le_iff)

lemma sortBy_snoc:
  assumes "sorted_wrt servedNoLater q"
  shows "sortBy compareItems (q @ [n])
           = takeWhile (\<lambda>x. servedNoLater x n) q @ [n] @ dropWhile (\<lambda>x. servedNoLater x n) q"
  using assms
proof (induction q)
  case Nil
  then show ?case by simp
next
  case (Cons x q)
  have later: "\<forall>z \<in> set q. servedNoLater x z" using Cons.prems by simp
  have ih: "sortBy compareItems (q @ [n])
              = takeWhile (\<lambda>x. servedNoLater x n) q @ [n] @ dropWhile (\<lambda>x. servedNoLater x n) q"
    using Cons by simp
  show ?case
  proof (cases "servedNoLater x n")
    case True
    have "\<forall>z \<in> set (takeWhile (\<lambda>x. servedNoLater x n) q @ [n]
                      @ dropWhile (\<lambda>x. servedNoLater x n) q). servedNoLater x z"
      using later True by (auto dest: set_takeWhileD set_dropWhileD)
    then show ?thesis using True ih by (simp add: insertBy_front)
  next
    case False
    have none: "\<forall>z \<in> set q. \<not> servedNoLater z n"
      using later False servedNoLater_trans by blast
    have tw: "takeWhile (\<lambda>x. servedNoLater x n) q = []"
      using none by (cases q) auto
    have dw: "dropWhile (\<lambda>x. servedNoLater x n) q = q"
      using none by (cases q) auto
    have "insertBy compareItems x (n # q) = n # x # q"
      using False later by (simp add: compareItems_le_iff insertBy_front)
    then show ?thesis using False ih tw dw by simp
  qed
qed

lemma servedNoLater_new_iff:
  assumes "timestamp x \<le> timestamp n"
  shows "servedNoLater x n
         \<longleftrightarrow> priorityOrder (itemPriority n) \<le> priorityOrder (itemPriority x)"
  using assms
  by (cases "itemPriority x"; cases "itemPriority n")
     (auto simp: servedNoLater_def priorityOrder_def)

lemma send_position:
  assumes "sorted_wrt servedNoLater q" and "\<forall>x \<in> set q. timestamp x \<le> now"
  shows "sendConsultationRequest req p now q
           = takeWhile (\<lambda>x. priorityOrder (itemPriority (newQueueItem req p now))
                              \<le> priorityOrder (itemPriority x)) q
             @ [newQueueItem req p now]
             @ dropWhile (\<lambda>x. priorityOrder (itemPriority (newQueueItem req p now))
                              \<le> priorityOrder (itemPriority x)) q"
proof -
  let ?n = "newQueueItem req p now"
  have ts: "timestamp ?n = now" by (simp add: newQueueItem_def)
  have eq: "\<And>x. x \<in> set q \<Longrightarrow> servedNoLater x ?n
              = (priorityOrder (itemPriority ?n) \<le> priorityOrder (itemPriority x))"
    using assms(2) ts by (simp add: servedNoLater_new_iff)
  have tw: "takeWhile (\<lambda>x. servedNoLater x ?n) q
              = takeWhile (\<lambda>x. priorityOrder (itemPriority ?n) \<le> priorityOrder (itemPriority x)) q"
    using eq by (intro takeWhile_cong) auto
  have dw: "dropWhile (\<lambda>x. servedNoLater x ?n) q
              = dropWhile (\<lambda>x. priorityOrder (itemPriority ?n) \<le> priorityOrder (itemPriority x)) q"
    using eq by (intro dropWhile_cong) auto
  show ?thesis
    unfolding sendConsultationRequest_def sortBy_snoc [OF assms(1)] tw dw ..
qed

lemma sorted_dropWhile_priority:
  assumes "sorted_wrt servedNoLater q"
  shows "\<forall>y \<in> set (dropWhile (\<lambda>x. k \<le> priorityOrder (itemPriority x)) q).
           priorityOrder (itemPriority y) < k"
  using assms
proof (induction q)
  case Nil
  then show ?case by simp
next
  case (Cons x q)
  show ?case
  proof (cases "k \<le> priorityOrder (itemPriority x)")
    case True
    then show ?thesis using Cons by simp
  next
    case False
    have "\<forall>z \<in> set q. priorityOrder (itemPriority z) \<le> priorityOrder (itemPriority x)"
      using Cons.prems servedNoLater_priority by auto
    then show ?thesis using False by auto
  qed
qed

lemma send_keeps_tiers:
  assumes "sorted_wrt servedNoLater q" and "\<forall>x \<in> set q. timestamp x \<le> now"
  shows "filter (\<lambda>x. itemPriority x = pr) (sendConsultationRequest req p now q)
           = filter (\<lambda>x. itemPriority x = pr) q
             @ (if itemPriority (newQueueItem req p now) = pr then [newQueueItem req p now] else [])"
proof -
  let ?n = "newQueueItem req p now"
  let ?P = "\<lambda>x. priorityOrder (itemPriority ?n) \<le> priorityOrder (itemPriority x)"
  have split: "filter (\<lambda>x. itemPriority x = pr) q
                 = filter (\<lambda>x. itemPriority x = pr) (takeWhile ?P q)
                   @ filter (\<lambda>x. itemPriority x = pr) (dropWhile ?P q)"
    by (metis filter_append takeWhile_dropWhile_id)
  have low: "\<forall>y \<in> set (dropWhile ?P q).
               priorityOrder (itemPriority y) < priorityOrder (itemPriority ?n)"
    using assms(1) by (rule sorted_dropWhile_priority)
  show ?thesis
  proof (cases "itemPriority ?n = pr")
    case True
    have "filter (\<lambda>x. itemPriority x = pr) (dropWhile ?P q) = []"
      using low True by (auto simp: filter_empty_conv)
    then show ?thesis
      using True split by (simp add: send_position [OF assms])
  next
    case False
    then show ?thesis
      using split by (simp add: send_position [OF assms])
  qed
qed

lemma high_goes_first:
  assumes "priority req = Some High" and "\<forall>x \<in> set q. itemPriority x \<noteq> High"
  shows "fst (shiftQueue (sendConsultationRequest req p now q)) = Some (newQueueItem req p now)"
proof -
  let ?n = "newQueueItem req p now"
  let ?s = "sendConsultationRequest req p now q"
  have hn: "itemPriority ?n = High" using assms(1) by (simp add: newQueueItem_def)
  have mem: "set ?s = insert ?n (set q)"
    by (simp add: sendConsultationRequest_def set_sortBy)
  then obtain h t where ht: "?s = h # t" by (cases ?s) auto
  have "sorted_wrt servedNoLater ?s"
    by (simp add: sendConsultationRequest_def sorted_sortBy)
  then have "h = ?n \<or> servedNoLater h ?n" using ht mem by auto
  then have "h = ?n \<or> priorityOrder (itemPriority ?n) \<le> priorityOrder (itemPriority h)"
    using servedNoLater_priority by blast
  then have "h = ?n \<or> itemPriority h = High"
    using hn by (cases "itemPriority h") (auto simp: priorityOrder_def)
  moreover have "h \<in> insert ?n (set q)" using ht mem by auto
  ultimately have "h = ?n" using assms(2) by auto
  then show ?thesis using ht by (simp add: shiftQueue_def)
qed

lemma shiftQueue_simps:
  "shiftQueue [] = (None, [])"
  "shiftQueue (queueItem # rest) = (Some queueItem, rest)"
  by (simp_all add: shiftQueue_def)

lemma set_send:
  "set (sendConsultationRequest req p now q) = insert (newQueueItem req p now) (set q)"
  by (simp add: sendConsultationRequest_def set_sortBy)

lemma sorted_send: "sorted_wrt servedNoLater (sendConsultationRequest req p now q)"
  by (simp add: sendConsultationRequest_def sorted_sortBy)

lemma timestamp_new: "timestamp (newQueueItem req p now) = now"
  by (simp add: newQueueItem_def)

lemma runQueue_sorted:
  assumes "sorted_wrt servedNoLater q"
  shows "sorted_wrt servedNoLater (snd (runQueue events served q))"
  using assms
proof (induction events served q rule: runQueue.induct)
  case (1 served q)
  then show ?case by simp
next
  case (2 req p now events served q)
  then show ?case by (simp add: sorted_send)
next
  case (3 events served q)
  then show ?case by (cases q) (simp_all add: shiftQueue_simps)
qed

lemma runQueue_tiers:
  assumes "sorted_wrt servedNoLater q"
    and "sorted (enqueueTimes events)"
    and "\<forall>x \<in> set q. \<forall>t \<in> set (enqueueTimes events). timestamp x \<le> t"
  shows "filter (\<lambda>x. itemPriority x = pr)
           (fst (runQueue events served q) @ snd (runQueue events served q))
         = filter (\<lambda>x. itemPriority x = pr) (served @ q)
           @ filter (\<lambda>x. itemPriority x = pr) (arrivals events)"
  using assms
proof (induction events served q rule: runQueue.induct)
  case (1 served q)
  then show ?case by simp
next
  case (2 req p now events served q)
  let ?q = "sendConsultationRequest req p now q"
  have old: "\<forall>x \<in> set q. timestamp x \<le> now" using "2.prems"(3) by simp
  have s: "sorted_wrt servedNoLater ?q" by (rule sorted_send)
  have c: "sorted (enqueueTimes events)" using "2.prems"(2) by simp
  have b: "\<forall>x \<in> set ?q. \<forall>t \<in> set (enqueueTimes events). timestamp x \<le> t"
    using "2.prems"(2,3) by (auto simp: set_send timestamp_new)
  have k: "filter (\<lambda>x. itemPriority x = pr) ?q
             = filter (\<lambda>x. itemPriority x = pr) q
               @ (if itemPriority (newQueueItem req p now) = pr
                  then [newQueueItem req p now] else [])"
    using "2.prems"(1) old by (rule send_keeps_tiers)
  show ?case
    using "2.IH" [OF s c b] k by simp
next
  case (3 events served q)
  show ?case
  proof (cases q)
    case Nil
    then show ?thesis using "3.IH"(1) "3.prems" by (simp add: shiftQueue_simps)
  next
    case (Cons h t)
    have "filter (\<lambda>x. itemPriority x = pr)
            (fst (runQueue events (served @ [h]) t) @ snd (runQueue events (served @ [h]) t))
          = filter (\<lambda>x. itemPriority x = pr) ((served @ [h]) @ t)
            @ filter (\<lambda>x. itemPriority x = pr) (arrivals events)"
      using "3.IH"(2) "3.prems" Cons
      by (simp add: shiftQueue_simps)
    then show ?thesis using Cons by (simp add: shiftQueue_simps)
  qed
qed

text \<open>
  C8 as stated fails in its last part: the queue is ordered by time stamp, not by arrival.
  Of two low-priority requests, the second enqueued with the earlier clock reading, the
  loop takes the second first.
\<close>

theorem equal_priority_not_in_arrival_order:
  "map promise (arrivals clockSetBackEvents) = [1, 2]
   \<and> map itemPriority (arrivals clockSetBackEvents) = [Low, Low]
   \<and> map promise (fst (runQueue clockSetBackEvents [] [])) = [2]"
  by (simp add: clockSetBackEvents_def sendConsultationRequest_def compareItems_def
      newQueueItem_def plainRequest_def priorityOrder_def shiftQueue_def)

text \<open>
  C8, as amended. Whatever the queue was, after an enqueue it is in the order of service:
  higher priority first and, within a priority, earlier time stamp first; so it is after
  every run of enqueues and dequeues. The loop's shift hands out the head and leaves the
  rest, and no queued item precedes the head. A high-priority request enqueued behind
  requests of lower priority is taken next. When the clock readings of the enqueues do not
  decrease, the new item goes behind every queued item of its own or of a higher priority,
  and in every run the requests of each priority are served in the order of their arrival.
\<close>

theorem queue_served_by_priority_then_arrival:
  "sorted_wrt servedNoLater (sendConsultationRequest req p now requestQueue)
   \<and> sorted_wrt servedNoLater (snd (runQueue events [] []))
   \<and> shiftQueue [] = (None, [])
   \<and> shiftQueue (queueItem # rest) = (Some queueItem, rest)
   \<and> (sorted_wrt servedNoLater (queueItem # rest) \<longrightarrow>
        sorted_wrt servedNoLater rest \<and> (\<forall>x \<in> set rest. servedNoLater queueItem x))
   \<and> (priority req = Some High \<and> (\<forall>x \<in> set requestQueue. itemPriority x \<noteq> High) \<longrightarrow>
        fst (shiftQueue (sendConsultationRequest req p now requestQueue))
          = Some (newQueueItem req p now))
   \<and> (sorted_wrt servedNoLater requestQueue \<and> (\<forall>x \<in> set requestQueue. timestamp x \<le> now) \<longrightarrow>
        sendConsultationRequest req p now requestQueue
          = takeWhile (\<lambda>x. priorityOrder (itemPriority (newQueueItem req p now))
                             \<le> priorityOrder (itemPriority x)) requestQueue
            @ [newQueueItem req p now]
            @ dropWhile (\<lambda>x. priorityOrder (itemPriority (newQueueItem req p now))
                             \<le> priorityOrder (itemPriority x)) requestQueue)
   \<and> (sorted (enqueueTimes events) \<longrightarrow>
        (\<forall>pr. filter (\<lambda>x. itemPriority x = pr)
                 (fst (runQueue events [] []) @ snd (runQueue events [] []))
               = filter (\<lambda>x. itemPriority x = pr) (arrivals events)))"
proof -
  have a: "sorted_wrt servedNoLater (sendConsultationRequest req p now requestQueue)"
    by (rule sorted_send)
  have b: "sorted_wrt servedNoLater (snd (runQueue events [] []))"
    by (rule runQueue_sorted) simp
  have c: "sorted_wrt servedNoLater (queueItem # rest) \<longrightarrow>
        sorted_wrt servedNoLater rest \<and> (\<forall>x \<in> set rest. servedNoLater queueItem x)"
    by simp
  have d: "sorted (enqueueTimes events) \<longrightarrow>
        (\<forall>pr. filter (\<lambda>x. itemPriority x = pr)
                 (fst (runQueue events [] []) @ snd (runQueue events [] []))
               = filter (\<lambda>x. itemPriority x = pr) (arrivals events))"
    using runQueue_tiers [where q = "[]" and served = "[]" and events = events] by simp
  have e: "priority req = Some High \<and> (\<forall>x \<in> set requestQueue. itemPriority x \<noteq> High) \<longrightarrow>
        fst (shiftQueue (sendConsultationRequest req p now requestQueue))
          = Some (newQueueItem req p now)"
    using high_goes_first [of req requestQueue p now] by blast
  have f: "sorted_wrt servedNoLater requestQueue \<and> (\<forall>x \<in> set requestQueue. timestamp x \<le> now) \<longrightarrow>
        sendConsultationRequest req p now requestQueue
          = takeWhile (\<lambda>x. priorityOrder (itemPriority (newQueueItem req p now))
                             \<le> priorityOrder (itemPriority x)) requestQueue
            @ [newQueueItem req p now]
            @ dropWhile (\<lambda>x. priorityOrder (itemPriority (newQueueItem req p now))
                             \<le> priorityOrder (itemPriority x)) requestQueue"
    using send_position [of requestQueue now req p] by blast
  show ?thesis
    by (intro conjI a b c d e f shiftQueue_simps)
qed

theorem queue_served_by_priority_then_arrival_witness:
  "sorted_wrt servedNoLater twoNormalQueued
   \<and> list_all (\<lambda>x. timestamp x \<le> 30) twoNormalQueued
   \<and> list_all (\<lambda>x. itemPriority x \<noteq> High) twoNormalQueued
   \<and> priority (plainRequest (Some High)) = Some High
   \<and> map promise twoNormalQueued = [1, 2]
   \<and> map promise (sendConsultationRequest (plainRequest (Some High)) 3 30 twoNormalQueued)
       = [3, 1, 2]
   \<and> fst (shiftQueue (sendConsultationRequest (plainRequest (Some High)) 3 30 twoNormalQueued))
       = Some (newQueueItem (plainRequest (Some High)) 3 30)
   \<and> map promise (sendConsultationRequest (plainRequest (Some Normal)) 3 30 twoNormalQueued)
       = [1, 2, 3]
   \<and> sorted (enqueueTimes scenarioEvents)
   \<and> map promise (fst (runQueue scenarioEvents [] [])) = [3, 1, 2]
   \<and> snd (runQueue scenarioEvents [] []) = []
   \<and> filter (\<lambda>x. itemPriority x = Normal) (fst (runQueue scenarioEvents [] []))
       = filter (\<lambda>x. itemPriority x = Normal) (arrivals scenarioEvents)"
proof -
  have q: "twoNormalQueued
             = [newQueueItem (plainRequest (Some Normal)) 1 10, newQueueItem (plainRequest None) 2 20]"
    by (simp add: twoNormalQueued_def sendConsultationRequest_def compareItems_def
        newQueueItem_def plainRequest_def priorityOrder_def)
  have s: "sorted_wrt servedNoLater twoNormalQueued"
    unfolding twoNormalQueued_def
    by (rule queue_served_by_priority_then_arrival [THEN conjunct1])
  have t: "\<forall>x \<in> set twoNormalQueued. timestamp x \<le> 30"
    by (simp add: q newQueueItem_def)
  have n: "\<forall>x \<in> set twoNormalQueued. itemPriority x \<noteq> High"
    by (simp add: q newQueueItem_def plainRequest_def)
  have h: "priority (plainRequest (Some High)) = Some High"
    by (simp add: plainRequest_def)
  have hi: "sendConsultationRequest (plainRequest (Some High)) 3 30 twoNormalQueued
              = newQueueItem (plainRequest (Some High)) 3 30 # twoNormalQueued"
    using s t queue_served_by_priority_then_arrival
      [where req = "plainRequest (Some High)" and p = 3 and now = 30
         and requestQueue = twoNormalQueued,
       THEN conjunct2, THEN conjunct2, THEN conjunct2, THEN conjunct2, THEN conjunct2,
       THEN conjunct2, THEN conjunct1]
    by (simp add: q newQueueItem_def plainRequest_def priorityOrder_def)
  have no: "sendConsultationRequest (plainRequest (Some Normal)) 3 30 twoNormalQueued
              = twoNormalQueued @ [newQueueItem (plainRequest (Some Normal)) 3 30]"
    using s t queue_served_by_priority_then_arrival
      [where req = "plainRequest (Some Normal)" and p = 3 and now = 30
         and requestQueue = twoNormalQueued,
       THEN conjunct2, THEN conjunct2, THEN conjunct2, THEN conjunct2, THEN conjunct2,
       THEN conjunct2, THEN conjunct1]
    by (simp add: q newQueueItem_def plainRequest_def priorityOrder_def)
  have f: "fst (shiftQueue (sendConsultationRequest (plainRequest (Some High)) 3 30 twoNormalQueued))
             = Some (newQueueItem (plainRequest (Some High)) 3 30)"
    using h n queue_served_by_priority_then_arrival
      [where req = "plainRequest (Some High)" and p = 3 and now = 30
         and requestQueue = twoNormalQueued,
       THEN conjunct2, THEN conjunct2, THEN conjunct2, THEN conjunct2, THEN conjunct2,
       THEN conjunct1]
    by simp
  have m: "map promise twoNormalQueued = [1, 2]"
    by (simp add: q newQueueItem_def)
  have m3: "map promise (sendConsultationRequest (plainRequest (Some High)) 3 30 twoNormalQueued)
              = [3, 1, 2]"
    unfolding hi using m by (simp add: newQueueItem_def)
  have m4: "map promise (sendConsultationRequest (plainRequest (Some Normal)) 3 30 twoNormalQueued)
              = [1, 2, 3]"
    unfolding no using m by (simp add: newQueueItem_def)
  have c: "sorted (enqueueTimes scenarioEvents)"
    by (simp add: scenarioEvents_def)
  have r: "map promise (fst (runQueue scenarioEvents [] [])) = [3, 1, 2]"
    "snd (runQueue scenarioEvents [] []) = []"
    by (simp_all add: scenarioEvents_def sendConsultationRequest_def compareItems_def
        newQueueItem_def plainRequest_def priorityOrder_def shiftQueue_def)
  have fi: "filter (\<lambda>x. itemPriority x = Normal) (fst (runQueue scenarioEvents [] []))
       = filter (\<lambda>x. itemPriority x = Normal) (arrivals scenarioEvents)"
    using c r(2) queue_served_by_priority_then_arrival
      [where events = scenarioEvents,
       THEN conjunct2, THEN conjunct2, THEN conjunct2, THEN conjunct2, THEN conjunct2,
       THEN conjunct2, THEN conjunct2]
    by simp
  show ?thesis
    using s t n h m m3 f m4 c r fi by (simp add: list_all_iff)
qed

subsection \<open>The retry loop\<close>








lemma calculateRetryDelay_capped:
  "calculateRetryDelay config k r \<le> real (orDefault (maxRetryDelay config) 10000)"
  by (simp add: calculateRetryDelay_def Let_def)

lemma calculateRetryDelay_exponential:
  assumes "0 < k"
  shows "calculateRetryDelay config k r
           = min (real (orDefault (baseRetryDelay config) 1000) * 2 ^ (k - 1) * (1 + r / 10))
                 (real (orDefault (maxRetryDelay config) 10000))"
  using assms by (simp add: calculateRetryDelay_def Let_def algebra_simps)


lemma handleRateLimit_default:
  "errRetryAfter e = None \<Longrightarrow> errMessage e = Some m \<Longrightarrow> \<not> str_includes m ''retry after''
     \<Longrightarrow> handleRateLimit e = 60000"
  by (simp add: handleRateLimit_def)









end
